theory Spec2Isabelle
  imports
    Complex_Main
    "HOL-Library.AList"
    "HOL-Library.Sublist"
    "HOL-Library.Char_ord"
    "HOL-Library.List_Lexorder"
    "HOL-Library.Log_Nat"
begin


section \<open>Text, amounts and the category table\<close>

text \<open>
  The program is a PyQt window, \<^verbatim>\<open>SmartBudgetApp\<close> in \<^verbatim>\<open>main.py\<close>, that keeps a ledger
  in four Python collections and rewrites \<^verbatim>\<open>data.json\<close> after each change.

  Python text is held here as its UTF-8 bytes, the encoding the program reads and writes
  its files in. The operations the program applies to text (\<^verbatim>\<open>split(';')\<close>,
  \<^verbatim>\<open>replace(',', '.')\<close>, \<^verbatim>\<open>strip()\<close>, comparison) give the same result on the bytes
  as on the code points.

  Amounts are Python floats in the program. A float is held as the rational number it
  stands for; infinities and NaN are outside the model. A sum, difference or quotient that
  the program forms once, in the order of its operands, is given by the exact one. The sums
  by category are formed with the addition of the machine, because the program groups the
  same amounts in two ways there.
\<close>

type_synonym amount = rat

definition income :: string where
  \<comment> \<open>the transaction type of an income, the Russian word for it\<close>
  "income = [CHR 0xD0, CHR 0x94, CHR 0xD0, CHR 0xBE, CHR 0xD1, CHR 0x85, CHR 0xD0, CHR 0xBE,
             CHR 0xD0, CHR 0xB4]"

definition expense :: string where
  \<comment> \<open>the transaction type of an expense\<close>
  "expense = [CHR 0xD0, CHR 0xA0, CHR 0xD0, CHR 0xB0, CHR 0xD1, CHR 0x81, CHR 0xD1, CHR 0x85,
              CHR 0xD0, CHR 0xBE, CHR 0xD0, CHR 0xB4]"

text \<open>The names of the categories, each under the English word for it.\<close>

definition salary :: string where
  "salary =
     [CHR 0xD0, CHR 0x97, CHR 0xD0, CHR 0xB0, CHR 0xD1, CHR 0x80, CHR 0xD0, CHR 0xBF,
      CHR 0xD0, CHR 0xBB, CHR 0xD0, CHR 0xB0, CHR 0xD1, CHR 0x82, CHR 0xD0, CHR 0xB0]"

definition freelance :: string where
  "freelance =
     [CHR 0xD0, CHR 0xA4, CHR 0xD1, CHR 0x80, CHR 0xD0, CHR 0xB8, CHR 0xD0, CHR 0xBB,
      CHR 0xD0, CHR 0xB0, CHR 0xD0, CHR 0xBD, CHR 0xD1, CHR 0x81]"

definition investments :: string where
  "investments =
     [CHR 0xD0, CHR 0x98, CHR 0xD0, CHR 0xBD, CHR 0xD0, CHR 0xB2, CHR 0xD0, CHR 0xB5,
      CHR 0xD1, CHR 0x81, CHR 0xD1, CHR 0x82, CHR 0xD0, CHR 0xB8, CHR 0xD1, CHR 0x86,
      CHR 0xD0, CHR 0xB8, CHR 0xD0, CHR 0xB8]"

definition gifts :: string where
  "gifts =
     [CHR 0xD0, CHR 0x9F, CHR 0xD0, CHR 0xBE, CHR 0xD0, CHR 0xB4, CHR 0xD0, CHR 0xB0,
      CHR 0xD1, CHR 0x80, CHR 0xD0, CHR 0xBA, CHR 0xD0, CHR 0xB8]"

definition other :: string where
  "other =
     [CHR 0xD0, CHR 0x94, CHR 0xD1, CHR 0x80, CHR 0xD1, CHR 0x83, CHR 0xD0, CHR 0xB3,
      CHR 0xD0, CHR 0xBE, CHR 0xD0, CHR 0xB5]"

definition food :: string where
  "food =
     [CHR 0xD0, CHR 0x95, CHR 0xD0, CHR 0xB4, CHR 0xD0, CHR 0xB0]"

definition transport :: string where
  "transport =
     [CHR 0xD0, CHR 0xA2, CHR 0xD1, CHR 0x80, CHR 0xD0, CHR 0xB0, CHR 0xD0, CHR 0xBD,
      CHR 0xD1, CHR 0x81, CHR 0xD0, CHR 0xBF, CHR 0xD0, CHR 0xBE, CHR 0xD1, CHR 0x80,
      CHR 0xD1, CHR 0x82]"

definition housing :: string where
  "housing =
     [CHR 0xD0, CHR 0x96, CHR 0xD0, CHR 0xB8, CHR 0xD0, CHR 0xBB, CHR 0xD1, CHR 0x8C,
      CHR 0xD0, CHR 0xB5]"

definition entertainment :: string where
  "entertainment =
     [CHR 0xD0, CHR 0xA0, CHR 0xD0, CHR 0xB0, CHR 0xD0, CHR 0xB7, CHR 0xD0, CHR 0xB2,
      CHR 0xD0, CHR 0xBB, CHR 0xD0, CHR 0xB5, CHR 0xD1, CHR 0x87, CHR 0xD0, CHR 0xB5,
      CHR 0xD0, CHR 0xBD, CHR 0xD0, CHR 0xB8, CHR 0xD1, CHR 0x8F]"

definition health :: string where
  "health =
     [CHR 0xD0, CHR 0x97, CHR 0xD0, CHR 0xB4, CHR 0xD0, CHR 0xBE, CHR 0xD1, CHR 0x80,
      CHR 0xD0, CHR 0xBE, CHR 0xD0, CHR 0xB2, CHR 0xD1, CHR 0x8C, CHR 0xD0, CHR 0xB5]"

definition clothes :: string where
  "clothes =
     [CHR 0xD0, CHR 0x9E, CHR 0xD0, CHR 0xB4, CHR 0xD0, CHR 0xB5, CHR 0xD0, CHR 0xB6,
      CHR 0xD0, CHR 0xB4, CHR 0xD0, CHR 0xB0]"

definition education :: string where
  "education =
     [CHR 0xD0, CHR 0x9E, CHR 0xD0, CHR 0xB1, CHR 0xD1, CHR 0x80, CHR 0xD0, CHR 0xB0,
      CHR 0xD0, CHR 0xB7, CHR 0xD0, CHR 0xBE, CHR 0xD0, CHR 0xB2, CHR 0xD0, CHR 0xB0,
      CHR 0xD0, CHR 0xBD, CHR 0xD0, CHR 0xB8, CHR 0xD0, CHR 0xB5]"

definition categories_income :: "string list" where
  "categories_income = [salary, freelance, investments, gifts, other]"

definition categories_expense :: "string list" where
  "categories_expense =
     [food, transport, housing, entertainment, health, clothes, education, other]"

definition budget_categories :: "(string \<times> string list) list" where
  \<comment> \<open>\<^verbatim>\<open>self.budget_categories\<close>: the dict from a transaction type to its categories\<close>
  "budget_categories = [(income, categories_income), (expense, categories_expense)]"

definition categories_of :: "string \<Rightarrow> string list" where
  \<comment> \<open>\<^verbatim>\<open>self.budget_categories.get(transaction_type, [])\<close>\<close>
  "categories_of transaction_type =
     (case map_of budget_categories transaction_type of None \<Rightarrow> [] | Some cs \<Rightarrow> cs)"


section \<open>The numbers of the machine\<close>

text \<open>
  A Python float is a double. \<open>double\<close> rounds a rational number to the nearest double,
  a tie going to the even significand of 53 bits, with the smallest exponent that of the
  subnormal numbers; numbers too large for a double are outside the model.
  \<open>double_add\<close> is the addition of two doubles: the exact sum, rounded.
\<close>

definition round_half_even :: "rat \<Rightarrow> int" where
  "round_half_even r =
     (let f = \<lfloor>r\<rfloor>; d = r - of_int f
      in if d < 1 / 2 then f else if 1 / 2 < d then f + 1 else if even f then f else f + 1)"

definition exponent :: "rat \<Rightarrow> int" where
  \<comment> \<open>for a positive number, the power of two at or below it\<close>
  "exponent x =
     (case quotient_of x of (p, q) \<Rightarrow>
        let l = bitlen p - bitlen q in if 2 powi l \<le> x then l else l - 1)"

definition double :: "rat \<Rightarrow> rat" where
  "double x =
     (if x = 0 then 0
      else let u = 2 powi (max (exponent \<bar>x\<bar>) (- 1022) - 52)
           in sgn x * of_int (round_half_even (\<bar>x\<bar> / u)) * u)"

definition double_add :: "amount \<Rightarrow> amount \<Rightarrow> amount" where
  "double_add x y = double (x + y)"


section \<open>The ledger and the persisted document\<close>

text \<open>
  The program keeps each entry as a dict with a fixed set of keys, written as a literal
  where the entry is created. A record holds the values of those keys.
\<close>

record transaction =
  t_type :: string
  t_category :: string
  t_amount :: amount
  t_date :: string
  t_description :: string

record saving_goal =
  g_name :: string
  g_amount :: amount
  g_target_date :: string
  g_saved :: amount

record regular_payment =
  p_name :: string
  p_amount :: amount
  p_category :: string
  p_frequency :: string
  p_last_paid :: "string option"

text \<open>
  The values that \<^verbatim>\<open>json.dump\<close> takes and \<^verbatim>\<open>json.load\<close> returns: \<^verbatim>\<open>None\<close>, numbers,
  text, lists and dicts. A dict is the list of its items in insertion order, with each key
  once. The text of the file between the two calls is the concern of the \<^verbatim>\<open>json\<close>
  module and is not modelled: a file holds the value that was dumped to it.
\<close>

datatype json =
    JNull
  | JNum amount
  | JStr string
  | JArr "json list"
  | JObj "(string \<times> json) list"

text \<open>
  The state: the four collections of the window object, and the file \<^verbatim>\<open>data.json\<close> as the
  list of the documents written to it so far, oldest first. The file holds the last of
  them, and does not exist while the list is empty. \<^verbatim>\<open>self.budget_limits\<close> is a dict: the
  list of its items in insertion order.
\<close>

record app =
  transactions :: "transaction list"
  budget_limits :: "(string \<times> amount) list"
  saving_goals :: "saving_goal list"
  regular_payments :: "regular_payment list"
  data_json :: "json list"

definition json_of_transaction :: "transaction \<Rightarrow> json" where
  "json_of_transaction t = JObj
     [(''type'', JStr (t_type t)), (''category'', JStr (t_category t)),
      (''amount'', JNum (t_amount t)), (''date'', JStr (t_date t)),
      (''description'', JStr (t_description t))]"

definition json_of_goal :: "saving_goal \<Rightarrow> json" where
  "json_of_goal g = JObj
     [(''name'', JStr (g_name g)), (''amount'', JNum (g_amount g)),
      (''target_date'', JStr (g_target_date g)), (''saved'', JNum (g_saved g))]"

definition json_of_payment :: "regular_payment \<Rightarrow> json" where
  "json_of_payment p = JObj
     [(''name'', JStr (p_name p)), (''amount'', JNum (p_amount p)),
      (''category'', JStr (p_category p)), (''frequency'', JStr (p_frequency p)),
      (''last_paid'', (case p_last_paid p of None \<Rightarrow> JNull | Some d \<Rightarrow> JStr d))]"

definition json_of_limits :: "(string \<times> amount) list \<Rightarrow> json" where
  "json_of_limits limits = JObj (map (\<lambda>(category, limit). (category, JNum limit)) limits)"

definition document :: "app \<Rightarrow> json" where
  \<comment> \<open>the dict \<^verbatim>\<open>data\<close> that \<^verbatim>\<open>save_data\<close> builds\<close>
  "document s = JObj
     [(''transactions'', JArr (map json_of_transaction (transactions s))),
      (''budget_limits'', json_of_limits (budget_limits s)),
      (''saving_goals'', JArr (map json_of_goal (saving_goals s))),
      (''regular_payments'', JArr (map json_of_payment (regular_payments s)))]"

definition save_data :: "app \<Rightarrow> app" where
  \<comment> \<open>opens \<^verbatim>\<open>data.json\<close> for writing and dumps the document; a failure of the write itself
      is not modelled\<close>
  "save_data s = s\<lparr>data_json := data_json s @ [document s]\<rparr>"

text \<open>
  Reading back. The program keeps whatever \<^verbatim>\<open>json.load\<close> returns under the four keys,
  without looking at it. The typed collections of this model hold only entries with the
  keys and value types of the dict literals above, so a loaded value is read as such an
  entry, and a document with anything else in it has no counterpart here: \<open>load_data\<close>
  then gives \<open>None\<close>.
\<close>

fun transaction_of_json :: "json \<Rightarrow> transaction option" where
  "transaction_of_json
     (JObj [(k1, JStr ty), (k2, JStr c), (k3, JNum a), (k4, JStr d), (k5, JStr desc)]) =
       (if k1 = ''type'' \<and> k2 = ''category'' \<and> k3 = ''amount'' \<and> k4 = ''date''
           \<and> k5 = ''description''
        then Some \<lparr>t_type = ty, t_category = c, t_amount = a, t_date = d, t_description = desc\<rparr>
        else None)"
| "transaction_of_json _ = None"

fun goal_of_json :: "json \<Rightarrow> saving_goal option" where
  "goal_of_json (JObj [(k1, JStr n), (k2, JNum a), (k3, JStr d), (k4, JNum sv)]) =
       (if k1 = ''name'' \<and> k2 = ''amount'' \<and> k3 = ''target_date'' \<and> k4 = ''saved''
        then Some \<lparr>g_name = n, g_amount = a, g_target_date = d, g_saved = sv\<rparr>
        else None)"
| "goal_of_json _ = None"

fun last_paid_of_json :: "json \<Rightarrow> string option option" where
  "last_paid_of_json JNull = Some None"
| "last_paid_of_json (JStr d) = Some (Some d)"
| "last_paid_of_json _ = None"

fun payment_of_json :: "json \<Rightarrow> regular_payment option" where
  "payment_of_json (JObj [(k1, JStr n), (k2, JNum a), (k3, JStr c), (k4, JStr f), (k5, lp)]) =
       (if k1 = ''name'' \<and> k2 = ''amount'' \<and> k3 = ''category'' \<and> k4 = ''frequency''
           \<and> k5 = ''last_paid''
        then map_option
               (\<lambda>l. \<lparr>p_name = n, p_amount = a, p_category = c, p_frequency = f, p_last_paid = l\<rparr>)
               (last_paid_of_json lp)
        else None)"
| "payment_of_json _ = None"

fun limit_of_json :: "string \<times> json \<Rightarrow> (string \<times> amount) option" where
  "limit_of_json (category, JNum limit) = Some (category, limit)"
| "limit_of_json _ = None"

fun list_of_json :: "(json \<Rightarrow> 'a option) \<Rightarrow> json \<Rightarrow> 'a list option" where
  "list_of_json entry (JArr js) = those (map entry js)"
| "list_of_json entry _ = None"

fun limits_of_json :: "json \<Rightarrow> (string \<times> amount) list option" where
  "limits_of_json (JObj items) = those (map limit_of_json items)"
| "limits_of_json _ = None"

definition get_default :: "(string \<times> json) list \<Rightarrow> string \<Rightarrow> json \<Rightarrow> json" where
  \<comment> \<open>\<^verbatim>\<open>data.get(key, default)\<close>\<close>
  "get_default data key dflt = (case map_of data key of None \<Rightarrow> dflt | Some v \<Rightarrow> v)"

datatype load_outcome =
    No_document   \<comment> \<open>\<^verbatim>\<open>data.json\<close> does not exist: nothing is read\<close>
  | Loaded
  | Load_warning  \<comment> \<open>an exception while loading, shown in a message box\<close>

definition load_data :: "app \<Rightarrow> (load_outcome \<times> app) option" where
  "load_data s =
     (if data_json s = [] then Some (No_document, s)
      else case last (data_json s) of
        JObj data \<Rightarrow>
          (case (list_of_json transaction_of_json (get_default data ''transactions'' (JArr [])),
                 limits_of_json (get_default data ''budget_limits'' (JObj [])),
                 list_of_json goal_of_json (get_default data ''saving_goals'' (JArr [])),
                 list_of_json payment_of_json (get_default data ''regular_payments'' (JArr [])))
           of (Some ts, Some ls, Some gs, Some ps) \<Rightarrow>
                Some (Loaded, s\<lparr>transactions := ts, budget_limits := ls, saving_goals := gs,
                                regular_payments := ps\<rparr>)
            | _ \<Rightarrow> None)
      | _ \<Rightarrow> Some (Load_warning, s) \<comment> \<open>\<^verbatim>\<open>data.get\<close> raises before anything is assigned\<close>)"


section \<open>Decimal literals\<close>

text \<open>
  For the examples, \<^verbatim>\<open>float\<close> on the plain decimal spellings that it accepts: an optional
  sign, digits, and an optional point with digits after it, with a digit somewhere. On
  these \<^verbatim>\<open>float\<close> gives the double nearest to the number written. The other spellings of
  \<^verbatim>\<open>float\<close> (an exponent, \<^verbatim>\<open>inf\<close>, \<^verbatim>\<open>nan\<close>, underscores, white space around the number) are
  not covered by \<open>float_literal\<close>; the statements about every environment are.
\<close>

definition is_digit :: "char \<Rightarrow> bool" where
  "is_digit c \<longleftrightarrow> c \<in> set ''0123456789''"

definition digit_val :: "char \<Rightarrow> nat" where
  "digit_val c = of_char c - 48"

definition decimal :: "string \<Rightarrow> nat" where
  "decimal ds = foldl (\<lambda>n c. 10 * n + digit_val c) 0 ds"

definition decimal_literal :: "string \<Rightarrow> rat option" where
  \<comment> \<open>the number that the text writes\<close>
  "decimal_literal text =
     (let (negative, body) =
            (case text of
               [] \<Rightarrow> (False, text)
             | c # r \<Rightarrow> if c = CHR ''-'' then (True, r)
                        else if c = CHR ''+'' then (False, r) else (False, text));
          whole = takeWhile is_digit body;
          rest = dropWhile is_digit body;
          fraction = (case rest of
                        [] \<Rightarrow> Some []
                      | c # f \<Rightarrow> if c = CHR ''.'' \<and> list_all is_digit f then Some f else None)
      in case fraction of
           None \<Rightarrow> None
         | Some f \<Rightarrow>
             if whole = [] \<and> f = [] then None
             else Some ((if negative then - 1 else 1)
                        * (of_nat (decimal whole) + of_nat (decimal f) / 10 ^ length f)))"

definition float_literal :: "string \<Rightarrow> amount option" where
  "float_literal text = map_option double (decimal_literal text)"

definition initial_app :: app where
  \<comment> \<open>the collections as \<^verbatim>\<open>__init__\<close> sets them, and no file\<close>
  "initial_app = \<lparr>transactions = [], budget_limits = [], saving_goals = [],
                  regular_payments = [], data_json = []\<rparr>"


section \<open>The environment\<close>

text \<open>
  What the program takes from outside its own code, as it is at the time of an operation:
  \<^item> \<open>env_float\<close>: \<^verbatim>\<open>float\<close>, the conversion of text to a number, where \<open>None\<close> is its
    \<^verbatim>\<open>ValueError\<close>;
  \<^item> \<open>env_add\<close>: the addition of two floats;
  \<^item> \<open>env_pie\<close>: whether the \<^verbatim>\<open>pie\<close> of matplotlib, with the drawing of the canvas that
    follows it, returns for the given sizes of the wedges; otherwise it raises;
  \<^item> \<open>env_period\<close>: the text of the period selector of the statistics tab;
  \<^item> \<open>env_now\<close>: \<^verbatim>\<open>datetime.now()\<close>, as year, month, day and the microseconds since
    midnight.

  The other calls into matplotlib and Qt (bars, lines, labels, table cells, message boxes,
  animations) are taken to return.
\<close>

record env =
  env_float :: "string \<Rightarrow> amount option"
  env_add :: "amount \<Rightarrow> amount \<Rightarrow> amount"
  env_pie :: "amount list \<Rightarrow> bool"
  env_period :: string
  env_now :: "nat \<times> nat \<times> nat \<times> int"


section \<open>Totals and balance\<close>

definition total_income :: "app \<Rightarrow> amount" where
  \<comment> \<open>\<^verbatim>\<open>total_income\<close> of \<^verbatim>\<open>update_dashboard\<close>\<close>
  "total_income s = sum_list [t_amount t. t \<leftarrow> transactions s, t_type t = income]"

definition total_expense :: "app \<Rightarrow> amount" where
  \<comment> \<open>\<^verbatim>\<open>total_expense\<close> of \<^verbatim>\<open>update_dashboard\<close>\<close>
  "total_expense s = sum_list [t_amount t. t \<leftarrow> transactions s, t_type t = expense]"

definition calculate_balance :: "app \<Rightarrow> amount" where
  "calculate_balance s =
     (let total_income = sum_list [t_amount t. t \<leftarrow> transactions s, t_type t = income];
          total_expense = sum_list [t_amount t. t \<leftarrow> transactions s, t_type t = expense]
      in total_income - total_expense)"

definition update_dashboard :: "app \<Rightarrow> amount \<times> amount \<times> amount" where
  \<comment> \<open>the values shown on the balance, income and expense cards\<close>
  "update_dashboard s =
     (let total_income = sum_list [t_amount t. t \<leftarrow> transactions s, t_type t = income];
          total_expense = sum_list [t_amount t. t \<leftarrow> transactions s, t_type t = expense];
          balance = total_income - total_expense
      in (balance, total_income, total_expense))"


section \<open>Sums by category\<close>

text \<open>
  \<^verbatim>\<open>update_pie_charts\<close> fills a \<^verbatim>\<open>defaultdict(float)\<close> for each type: every transaction of the
  type adds its amount under its category, and a category met for the first time starts
  from zero at the end of the dict. \<open>category_sums\<close> is that loop. Its additions are those of
  the environment, since the sums of the dict group the amounts otherwise than the total
  does. Each dict that is not empty is then drawn as a pie, which may raise.
\<close>

definition add_to ::
  "(amount \<Rightarrow> amount \<Rightarrow> amount) \<Rightarrow> (string \<times> amount) list \<Rightarrow> string \<Rightarrow> amount
     \<Rightarrow> (string \<times> amount) list" where
  \<comment> \<open>\<^verbatim>\<open>d[key] += a\<close> on a \<^verbatim>\<open>defaultdict(float)\<close>\<close>
  "add_to add d key a =
     AList.update key (add (case map_of d key of None \<Rightarrow> 0 | Some v \<Rightarrow> v) a) d"

fun category_sums ::
  "(amount \<Rightarrow> amount \<Rightarrow> amount) \<Rightarrow> string \<Rightarrow> transaction list \<Rightarrow> (string \<times> amount) list
     \<Rightarrow> (string \<times> amount) list" where
  "category_sums add ty [] d = d"
| "category_sums add ty (t # ts) d =
     (if t_type t = ty then category_sums add ty ts (add_to add d (t_category t) (t_amount t))
      else category_sums add ty ts d)"

definition update_pie_charts :: "env \<Rightarrow> app \<Rightarrow> (string \<times> amount) list \<times> (string \<times> amount) list" where
  \<comment> \<open>the dicts \<^verbatim>\<open>income_categories\<close> and \<^verbatim>\<open>expense_categories\<close>\<close>
  "update_pie_charts e s =
     (category_sums (env_add e) income (transactions s) [],
      category_sums (env_add e) expense (transactions s) [])"

definition pie_returns :: "env \<Rightarrow> (string \<times> amount) list \<Rightarrow> bool" where
  \<comment> \<open>\<^verbatim>\<open>if categories: ... pie(categories.values(), ...)\<close>, and the drawing\<close>
  "pie_returns e d \<longleftrightarrow> d = [] \<or> env_pie e (map snd d)"

definition update_pie_charts_returns :: "env \<Rightarrow> app \<Rightarrow> bool" where
  \<comment> \<open>whether \<^verbatim>\<open>update_pie_charts\<close> returns; otherwise it raises\<close>
  "update_pie_charts_returns e s \<longleftrightarrow>
     pie_returns e (fst (update_pie_charts e s)) \<and> pie_returns e (snd (update_pie_charts e s))"




section \<open>The chart of months\<close>

text \<open>
  \<^verbatim>\<open>update_chart\<close> reads the date of each transaction with
  \<^verbatim>\<open>datetime.strptime(t["date"], "%Y-%m-%d")\<close> and takes \<^verbatim>\<open>strftime("%Y-%m")\<close> of it as the key
  of the month. \<open>strptime\<close> follows the pattern that Python builds for this format: four
  digits, a dash, a month of one or two digits, a dash, and a day of one or two digits
  (or a space and a digit), with nothing after it; then the date has to exist. An error
  of \<^verbatim>\<open>strptime\<close> is \<open>None\<close>. The digits are the ASCII digits; the pattern of Python also
  takes the decimal digits of other scripts, which are left out here.
\<close>

definition two_digits :: "char \<Rightarrow> char \<Rightarrow> nat" where
  "two_digits a b = 10 * digit_val a + digit_val b"

fun month_field :: "string \<Rightarrow> (nat \<times> string) option" where
  \<comment> \<open>\<^verbatim>\<open>(?P<m>1[0-2]|0[1-9]|[1-9])\<close> and the dash after it; the result is the month and the
      rest of the text\<close>
  "month_field (a # b # c # rest) =
     (if a = CHR ''1'' \<and> b \<in> set ''012'' \<and> c = CHR ''-'' then Some (two_digits a b, rest)
      else if a = CHR ''0'' \<and> b \<in> set ''123456789'' \<and> c = CHR ''-''
        then Some (two_digits a b, rest)
      else if a \<in> set ''123456789'' \<and> b = CHR ''-'' then Some (digit_val a, c # rest)
      else None)"
| "month_field [a, b] =
     (if a \<in> set ''123456789'' \<and> b = CHR ''-'' then Some (digit_val a, []) else None)"
| "month_field _ = None"

fun day_field :: "string \<Rightarrow> nat option" where
  \<comment> \<open>\<^verbatim>\<open>(?P<d>3[0-1]|[1-2]\d|0[1-9]|[1-9]| [1-9])\<close> at the end of the text\<close>
  "day_field [a, b] =
     (if a = CHR ''3'' \<and> b \<in> set ''01'' then Some (two_digits a b)
      else if a \<in> set ''12'' \<and> is_digit b then Some (two_digits a b)
      else if a = CHR ''0'' \<and> b \<in> set ''123456789'' then Some (two_digits a b)
      else if a = CHR '' '' \<and> b \<in> set ''123456789'' then Some (digit_val b)
      else None)"
| "day_field [a] = (if a \<in> set ''123456789'' then Some (digit_val a) else None)"
| "day_field _ = None"

definition is_leap :: "nat \<Rightarrow> bool" where
  "is_leap y \<longleftrightarrow> y mod 4 = 0 \<and> (y mod 100 \<noteq> 0 \<or> y mod 400 = 0)"

definition days_in_month :: "nat \<Rightarrow> nat \<Rightarrow> nat" where
  "days_in_month y m =
     (if m = 2 then (if is_leap y then 29 else 28)
      else if m \<in> {4, 6, 9, 11} then 30 else 31)"

fun strptime :: "string \<Rightarrow> (nat \<times> nat \<times> nat) option" where
  "strptime (y1 # y2 # y3 # y4 # dash # rest) =
     (if is_digit y1 \<and> is_digit y2 \<and> is_digit y3 \<and> is_digit y4 \<and> dash = CHR ''-'' then
        (case month_field rest of
           None \<Rightarrow> None
         | Some (m, rest') \<Rightarrow>
             (case day_field rest' of
                None \<Rightarrow> None
              | Some d \<Rightarrow>
                  (let y = decimal [y1, y2, y3, y4]
                   in if 1 \<le> y \<and> 1 \<le> d \<and> d \<le> days_in_month y m then Some (y, m, d)
                      else None)))
      else None)"
| "strptime _ = None"

definition digit_char :: "nat \<Rightarrow> char" where
  "digit_char n = char_of (48 + n)"

fun str_nat :: "nat \<Rightarrow> string" where
  \<comment> \<open>a number in decimal, without padding\<close>
  "str_nat n = (if n < 10 then [digit_char n] else str_nat (n div 10) @ [digit_char (n mod 10)])"

declare str_nat.simps [simp del]

definition strftime_Y_m :: "nat \<times> nat \<times> nat \<Rightarrow> string" where
  \<comment> \<open>\<^verbatim>\<open>strftime("%Y-%m")\<close>: the year as the C library prints it, which for a year below 1000
      pads it with zeros on some platforms and not on others (not here), and the month in
      two digits\<close>
  "strftime_Y_m date =
     (case date of (y, m, d) \<Rightarrow> str_nat y @ ''-'' @ [digit_char (m div 10), digit_char (m mod 10)])"

definition month_key :: "string \<Rightarrow> string option" where
  "month_key text = map_option strftime_Y_m (strptime text)"

text \<open>
  \<open>months\<close> is the \<^verbatim>\<open>defaultdict\<close> of the program: the items in insertion order, each with
  the income and the expense of its month. A transaction whose type is not the income type
  counts as an expense. The result of \<open>update_chart\<close> is \<^verbatim>\<open>sorted_months\<close>, from which the
  bars are drawn, or \<open>None\<close> when a date raises.
\<close>

definition month_entry :: "(string \<times> amount \<times> amount) list \<Rightarrow> string \<Rightarrow> amount \<times> amount" where
  \<comment> \<open>\<^verbatim>\<open>months[month_key]\<close>: the sums of the month, zero and zero for a new month\<close>
  "month_entry months key = (case map_of months key of None \<Rightarrow> (0, 0) | Some v \<Rightarrow> v)"

fun month_sums ::
  "transaction list \<Rightarrow> (string \<times> amount \<times> amount) list
     \<Rightarrow> (string \<times> amount \<times> amount) list option" where
  "month_sums [] months = Some months"
| "month_sums (t # ts) months =
     (case month_key (t_date t) of
        None \<Rightarrow> None
      | Some key \<Rightarrow>
          (case month_entry months key of
             (income_sum, expense_sum) \<Rightarrow>
               month_sums ts
                 (AList.update key
                    (if t_type t = income then (income_sum + t_amount t, expense_sum)
                     else (income_sum, expense_sum + t_amount t))
                    months)))"

definition update_chart :: "app \<Rightarrow> (string \<times> amount \<times> amount) list option" where
  "update_chart s = map_option (sort_key fst) (month_sums (transactions s) [])"

definition iso_date :: "string \<Rightarrow> bool" where
  \<comment> \<open>a date of ten characters, \<^verbatim>\<open>YYYY-MM-DD\<close>, that \<open>strptime\<close> reads, of the year 1000 or
      later\<close>
  "iso_date text \<longleftrightarrow>
     length text = 10 \<and> (case strptime text of None \<Rightarrow> False | Some (y, m, d) \<Rightarrow> 1000 \<le> y)"


section \<open>Redrawing the dashboard\<close>

text \<open>
  \<^verbatim>\<open>update_dashboard\<close> sets the three cards, then calls \<^verbatim>\<open>update_chart\<close> and
  \<^verbatim>\<open>update_pie_charts\<close>. It raises when a date of the ledger cannot be read or a pie cannot
  be drawn.
\<close>

definition update_dashboard_returns :: "env \<Rightarrow> app \<Rightarrow> bool" where
  "update_dashboard_returns e s \<longleftrightarrow>
     (case update_chart s of None \<Rightarrow> False | Some sorted_months \<Rightarrow> update_pie_charts_returns e s)"


section \<open>Recording a transaction\<close>

definition replace_comma :: "string \<Rightarrow> string" where
  \<comment> \<open>\<^verbatim>\<open>.replace(',', '.')\<close>\<close>
  "replace_comma text = map (\<lambda>c. if c = CHR '','' then CHR ''.'' else c) text"

text \<open>
  The contents of the widgets of the transaction form. \<open>create_transaction_tab\<close> is the form
  as the window builds it: the type selector is filled with the two types and shows the
  first, the category selector is created without items, and the date is today's.
  \<open>update_categories\<close> is the slot that fills the category selector with the categories of
  the type; it is connected to the change of the type, after the type selector has been
  filled, and is called from nowhere else.
\<close>

record transaction_form =
  transaction_type_combo :: string
  category_combo :: string
  amount_input :: string
  date_edit :: string
  description_input :: string

definition create_transaction_tab :: "string \<Rightarrow> transaction_form" where
  "create_transaction_tab today =
     \<lparr>transaction_type_combo = income, category_combo = '''', amount_input = '''',
      date_edit = today, description_input = ''''\<rparr>"

definition update_categories :: "transaction_form \<Rightarrow> transaction_form" where
  "update_categories form =
     form\<lparr>category_combo :=
            (case categories_of (transaction_type_combo form) of
               [] \<Rightarrow> ''''
             | category # categories \<Rightarrow> category)\<rparr>"

datatype outcome =
    Warning  \<comment> \<open>the message box asking for a correct amount, and an early return\<close>
  | Added    \<comment> \<open>the handler ran to its end\<close>
  | Raised   \<comment> \<open>an exception left the handler, which has no \<^verbatim>\<open>try\<close> around the redrawing\<close>

text \<open>
  \<^verbatim>\<open>add_transaction\<close>: the handler of the form's button. After \<^verbatim>\<open>save_data\<close> it fills the
  table of transactions and redraws the dashboard; when that raises, the transaction is
  already appended and written.
\<close>

definition add_transaction :: "env \<Rightarrow> transaction_form \<Rightarrow> app \<Rightarrow> outcome \<times> app" where
  "add_transaction e form s =
     (let category = category_combo form in
      case env_float e (replace_comma (amount_input form)) of
        None \<Rightarrow> (Warning, s)
      | Some amount \<Rightarrow>
          (let date = date_edit form;
               description = description_input form;
               transaction_type = transaction_type_combo form;
               transaction = \<lparr>t_type = transaction_type, t_category = category,
                              t_amount = amount, t_date = date, t_description = description\<rparr>;
               s' = save_data (s\<lparr>transactions := transactions s @ [transaction]\<rparr>)
           in (if update_dashboard_returns e s' then Added else Raised, s')))"


section \<open>The tables of budget limits and of goals\<close>

text \<open>
  The two tables are widgets. A row holds the values that the program formats into the
  cells, and the colour it gives to the last cell. \<open>window\<close> is the ledger together with
  the rows that the two tables show.
\<close>

record budget_row =
  b_category :: string
  b_limit :: amount
  b_spent :: amount
  b_red :: bool  \<comment> \<open>the spent cell is set in red\<close>

datatype colour =
    Green  \<comment> \<open>\<^verbatim>\<open>#4CAF50\<close>\<close>
  | Amber  \<comment> \<open>\<^verbatim>\<open>#FFC107\<close>\<close>
  | Red    \<comment> \<open>\<^verbatim>\<open>#F44336\<close>\<close>

record goal_row =
  r_name :: string
  r_amount :: amount
  r_target_date :: string
  r_progress :: amount
  r_colour :: colour

record window =
  ledger :: app
  budget_limits_table :: "budget_row list"
  goals_table :: "goal_row list"

definition budget_limit_row :: "transaction list \<Rightarrow> string \<times> amount \<Rightarrow> budget_row" where
  \<comment> \<open>the body of the loop of \<^verbatim>\<open>update_budget_limits_table\<close>\<close>
  "budget_limit_row ts item =
     (case item of (category, limit) \<Rightarrow>
        let spent = sum_list [t_amount t. t \<leftarrow> ts, t_type t = expense \<and> t_category t = category]
        in \<lparr>b_category = category, b_limit = limit, b_spent = spent, b_red = (spent > limit)\<rparr>)"

definition update_budget_limits_table :: "window \<Rightarrow> window" where
  "update_budget_limits_table w =
     w\<lparr>budget_limits_table :=
         map (budget_limit_row (transactions (ledger w))) (budget_limits (ledger w))\<rparr>"

definition goal_table_row :: "saving_goal \<Rightarrow> goal_row" where
  \<comment> \<open>the body of the loop of \<^verbatim>\<open>update_goals_table\<close>\<close>
  "goal_table_row goal =
     (let progress = (if g_amount goal > 0 then (g_saved goal / g_amount goal) * 100 else 0)
      in \<lparr>r_name = g_name goal, r_amount = g_amount goal, r_target_date = g_target_date goal,
          r_progress = progress,
          r_colour = (if progress \<ge> 100 then Green else if progress \<ge> 75 then Amber else Red)\<rparr>)"

definition update_goals_table :: "window \<Rightarrow> window" where
  "update_goals_table w = w\<lparr>goals_table := map goal_table_row (saving_goals (ledger w))\<rparr>"


section \<open>Redrawing all tabs\<close>

text \<open>
  \<^verbatim>\<open>update_stats\<close> reads every date with \<^verbatim>\<open>strptime\<close>, keeps the transactions on or after
  the start of the chosen period (the first of the current month or year, at the current
  time of day), and, when any are left, draws their incomes by category as a pie.
  \<^verbatim>\<open>update_all_tabs\<close> redraws the dashboard, then the tables and the statistics; the tables
  do not raise.
\<close>

definition period_month :: string where
  "period_month =
     [CHR 0xD0, CHR 0x97, CHR 0xD0, CHR 0xB0, CHR 0x20, CHR 0xD0, CHR 0xBC, CHR 0xD0,
      CHR 0xB5, CHR 0xD1, CHR 0x81, CHR 0xD1, CHR 0x8F, CHR 0xD1, CHR 0x86]"

definition period_year :: string where
  "period_year =
     [CHR 0xD0, CHR 0x97, CHR 0xD0, CHR 0xB0, CHR 0x20, CHR 0xD0, CHR 0xB3, CHR 0xD0,
      CHR 0xBE, CHR 0xD0, CHR 0xB4]"

definition start_date :: "env \<Rightarrow> (nat \<times> nat \<times> nat \<times> int) option" where
  \<comment> \<open>\<^verbatim>\<open>now.replace(day=1)\<close> or \<^verbatim>\<open>now.replace(month=1, day=1)\<close>; none for any other period\<close>
  "start_date e =
     (case env_now e of (year, month, day, time) \<Rightarrow>
        if env_period e = period_month then Some (year, month, 1, time)
        else if env_period e = period_year then Some (year, 1, 1, time)
        else None)"

definition on_or_after :: "nat \<times> nat \<times> nat \<Rightarrow> nat \<times> nat \<times> nat \<times> int \<Rightarrow> bool" where
  \<comment> \<open>\<^verbatim>\<open>date >= start\<close>, where the date is at midnight\<close>
  "on_or_after date start =
     (case date of (y, m, d) \<Rightarrow>
      case start of (year, month, day, time) \<Rightarrow>
        year < y \<or> (y = year \<and> (month < m \<or> (m = month \<and> (day < d \<or> (d = day \<and> time = 0))))))"

definition stats_transactions :: "env \<Rightarrow> transaction list \<Rightarrow> transaction list option" where
  \<comment> \<open>the transactions of the period, or \<open>None\<close> when a date raises\<close>
  "stats_transactions e ts =
     (case those (map (\<lambda>t. strptime (t_date t)) ts) of
        None \<Rightarrow> None
      | Some dates \<Rightarrow>
          (case start_date e of
             None \<Rightarrow> Some ts
           | Some start \<Rightarrow>
               Some (map fst (filter (\<lambda>(t, date). on_or_after date start) (zip ts dates)))))"

definition update_stats_returns :: "env \<Rightarrow> app \<Rightarrow> bool" where
  "update_stats_returns e s \<longleftrightarrow>
     (case stats_transactions e (transactions s) of
        None \<Rightarrow> False
      | Some ts \<Rightarrow> pie_returns e (category_sums (env_add e) income ts []))"

definition update_all_tabs_returns :: "env \<Rightarrow> app \<Rightarrow> bool" where
  "update_all_tabs_returns e s \<longleftrightarrow> update_dashboard_returns e s \<and> update_stats_returns e s"


section \<open>Import of a table\<close>

text \<open>
  \<^verbatim>\<open>strip()\<close> removes white space from both ends. \<open>whitespace\<close> lists the characters
  that Python counts as white space, each in UTF-8. A text in UTF-8 that ends with the bytes
  of one of them ends with that character, so the end is stripped on the reversed text.
\<close>

definition whitespace :: "string list" where
  "whitespace =
     [[CHR 0x09], [CHR 0x0A], [CHR 0x0B], [CHR 0x0C], [CHR 0x0D], [CHR 0x1C], [CHR 0x1D],
      [CHR 0x1E], [CHR 0x1F], [CHR 0x20], [CHR 0xC2, CHR 0x85], [CHR 0xC2, CHR 0xA0],
      [CHR 0xE1, CHR 0x9A, CHR 0x80], [CHR 0xE2, CHR 0x80, CHR 0x80],
      [CHR 0xE2, CHR 0x80, CHR 0x81], [CHR 0xE2, CHR 0x80, CHR 0x82],
      [CHR 0xE2, CHR 0x80, CHR 0x83], [CHR 0xE2, CHR 0x80, CHR 0x84],
      [CHR 0xE2, CHR 0x80, CHR 0x85], [CHR 0xE2, CHR 0x80, CHR 0x86],
      [CHR 0xE2, CHR 0x80, CHR 0x87], [CHR 0xE2, CHR 0x80, CHR 0x88],
      [CHR 0xE2, CHR 0x80, CHR 0x89], [CHR 0xE2, CHR 0x80, CHR 0x8A],
      [CHR 0xE2, CHR 0x80, CHR 0xA8], [CHR 0xE2, CHR 0x80, CHR 0xA9],
      [CHR 0xE2, CHR 0x80, CHR 0xAF], [CHR 0xE2, CHR 0x81, CHR 0x9F],
      [CHR 0xE3, CHR 0x80, CHR 0x80]]"

definition leading :: "string list \<Rightarrow> string \<Rightarrow> string option" where
  \<comment> \<open>the first of the given characters that the text starts with\<close>
  "leading ws text = find (\<lambda>w. w \<noteq> [] \<and> prefix w text) ws"

function strip_leading :: "string list \<Rightarrow> string \<Rightarrow> string" where
  "strip_leading ws text =
     (case leading ws text of
        None \<Rightarrow> text
      | Some w \<Rightarrow> strip_leading ws (drop (length w) text))"
  by pat_completeness auto
termination
proof (relation "measure (\<lambda>(ws, text). length text)")
  show "wf (measure (\<lambda>(ws, text). length text))" by simp
next
  fix ws :: "string list" and line w :: string
  assume "leading ws line = Some w"
  then have "w \<noteq> []" and "prefix w line"
    by (auto simp: leading_def find_Some_iff)
  then have "line \<noteq> []" by auto
  with \<open>w \<noteq> []\<close>
  show "((ws, drop (length w) line), (ws, line)) \<in> measure (\<lambda>(ws, text). length text)"
    by simp
qed

declare strip_leading.simps [simp del]

definition strip :: "string \<Rightarrow> string" where
  "strip text = rev (strip_leading (map rev whitespace) (rev (strip_leading whitespace text)))"

fun split :: "char \<Rightarrow> string \<Rightarrow> string list" where
  \<comment> \<open>\<^verbatim>\<open>text.split(sep)\<close> for a separator of one character\<close>
  "split sep [] = [[]]"
| "split sep (c # cs) =
     (if c = sep then [] # split sep cs
      else (case split sep cs of [] \<Rightarrow> [[c]] | part # parts \<Rightarrow> (c # part) # parts))"

text \<open>
  \<^verbatim>\<open>import_from_csv\<close>. The file is given by the lines that reading it yields, each with its
  line end, or \<open>None\<close> when the dialog was closed without a file. \<open>import_lines\<close> is the loop
  over the lines after the first, with the transactions and the counter \<^verbatim>\<open>imported\<close> as its
  state. The whole body is in a \<^verbatim>\<open>try\<close> whose handler reports a failed import. The first
  line is taken with \<^verbatim>\<open>next(f)\<close>, which raises \<^verbatim>\<open>StopIteration\<close> on a file without lines.
  After the loop the program calls \<^verbatim>\<open>save_data\<close> and \<^verbatim>\<open>update_all_tabs\<close>, and then notifies
  of the count; when the redrawing raises, the handler reports a failed import although the
  rows are appended and written. A failure of reading the file is not modelled.
\<close>

datatype import_outcome =
    No_file           \<comment> \<open>no file chosen: return\<close>
  | Import_failed     \<comment> \<open>an exception, reported by the handler in a message box\<close>
  | Imported nat      \<comment> \<open>the notification of the count\<close>

fun import_lines ::
  "(string \<Rightarrow> amount option) \<Rightarrow> string list \<Rightarrow> transaction list \<times> nat
     \<Rightarrow> transaction list \<times> nat" where
  "import_lines float_of [] (ts, imported) = (ts, imported)"
| "import_lines float_of (line # lines) (ts, imported) =
     (let parts = split CHR '';'' (strip line) in
      if length parts < 5 then import_lines float_of lines (ts, imported)
      else
        (let date = parts ! 0; trans_type = parts ! 1; category = parts ! 2;
             amount = parts ! 3; desc = parts ! 4
         in case float_of (replace_comma amount) of
              None \<Rightarrow> import_lines float_of lines (ts, imported)
            | Some amount \<Rightarrow>
                import_lines float_of lines
                  (ts @ [\<lparr>t_type = trans_type, t_category = category, t_amount = amount,
                          t_date = date, t_description = desc\<rparr>],
                   imported + 1)))"

definition import_from_csv :: "env \<Rightarrow> string list option \<Rightarrow> app \<Rightarrow> import_outcome \<times> app" where
  "import_from_csv e file s =
     (case file of
        None \<Rightarrow> (No_file, s)
      | Some [] \<Rightarrow> (Import_failed, s)
      | Some (header # lines) \<Rightarrow>
          (case import_lines (env_float e) lines (transactions s, 0) of
             (ts, imported) \<Rightarrow>
               (let s' = save_data (s\<lparr>transactions := ts\<rparr>)
                in (if update_all_tabs_returns e s' then Imported imported else Import_failed,
                    s'))))"

text \<open>
  What the specification says of a row, to compare the loop with: a row has the fields
  between its semicolons; a row with fewer than five fields, or with an amount that does
  not convert once its comma is a point, gives nothing; any other row gives the transaction
  of its first five fields, in the order date, type, category, amount, description.
\<close>

definition row_transaction :: "(string \<Rightarrow> amount option) \<Rightarrow> string \<Rightarrow> transaction option" where
  "row_transaction float_of row =
     (case split CHR '';'' (strip row) of
        date # trans_type # category # amount # desc # others \<Rightarrow>
          map_option
            (\<lambda>a. \<lparr>t_type = trans_type, t_category = category, t_amount = a,
                  t_date = date, t_description = desc\<rparr>)
            (float_of (replace_comma amount))
      | _ \<Rightarrow> None)"

definition category_invariant :: "transaction \<Rightarrow> bool" where
  \<comment> \<open>the invariant of the specification: the category of a transaction is one of the
      categories of its type\<close>
  "category_invariant t \<longleftrightarrow> t_category t \<in> set (categories_of (t_type t))"


section \<open>Examples\<close>

text \<open>The example of the specification.\<close>

definition example_transactions :: "transaction list" where
  "example_transactions =
     [\<lparr>t_type = income, t_category = salary, t_amount = 1000, t_date = ''2024-01-05'',
       t_description = ''''\<rparr>,
      \<lparr>t_type = expense, t_category = food, t_amount = 200, t_date = ''2024-01-10'',
       t_description = ''''\<rparr>,
      \<lparr>t_type = expense, t_category = food, t_amount = 50, t_date = ''2024-02-01'',
       t_description = ''''\<rparr>]"

definition example_app :: app where
  \<comment> \<open>the three transactions, and a limit of 100 for food set after them\<close>
  "example_app = initial_app\<lparr>transactions := example_transactions,
                             budget_limits := [(food, 100)]\<rparr>"

definition example_row :: string where
  \<comment> \<open>a line of a file, with its line end\<close>
  "example_row = ''2024-03-01;Expense;Transport;99,50;Bus'' @ [CHR 0x0A]"

definition example_header :: string where
  "example_header = ''Date;Type;Category;Amount;Description'' @ [CHR 0x0A]"

definition example_row_salary :: string where
  \<comment> \<open>a line with the expense type and an income category\<close>
  "example_row_salary = ''2024-03-02;'' @ expense @ '';'' @ salary @ '';10.5;Pay'' @ [CHR 0x0A]"

definition example_row_undated :: string where
  \<comment> \<open>a line whose first field is not a date\<close>
  "example_row_undated = ''soon;'' @ expense @ '';'' @ food @ '';12;Lunch'' @ [CHR 0x0A]"

definition example_row_999 :: string where
  \<comment> \<open>a line with a date of the year 999\<close>
  "example_row_999 = ''0999-01-05;'' @ expense @ '';'' @ food @ '';12;Lunch'' @ [CHR 0x0A]"

text \<open>
  An environment for the examples: \<^verbatim>\<open>float\<close> on decimal literals, the addition of doubles, a
  pie that is drawn when no size is negative and not all are zero, the period of the month
  (the one selected when the window opens), and noon of 15 March 2024.
\<close>

definition pie_draws :: "amount list \<Rightarrow> bool" where
  "pie_draws sizes \<longleftrightarrow> list_all (\<lambda>x. 0 \<le> x) sizes \<and> 0 < sum_list sizes"

definition example_env :: env where
  "example_env =
     \<lparr>env_float = float_literal, env_add = double_add, env_pie = pie_draws,
      env_period = period_month, env_now = (2024, 3, 15, 43200000000)\<rparr>"



section \<open>Properties of the totals\<close>

lemma comprehension_filter: "[f x. x \<leftarrow> xs, P x] = map f (filter P xs)"
  by (induction xs) simp_all

text \<open>
  C1. In every state of the ledger the balance, as \<^verbatim>\<open>calculate_balance\<close> returns it and as
  the dashboard shows it, is the total income minus the total expense, where the total
  income is the sum of the amounts of the transactions of type income and the total expense
  the sum of the amounts of those of type expense, both over the whole sequence of
  transactions.
\<close>

theorem balance_is_income_minus_expense:
  "calculate_balance s = total_income s - total_expense s
   \<and> update_dashboard s = (calculate_balance s, total_income s, total_expense s)
   \<and> total_income s
       = sum_list (map t_amount (filter (\<lambda>t. t_type t = income) (transactions s)))
   \<and> total_expense s
       = sum_list (map t_amount (filter (\<lambda>t. t_type t = expense) (transactions s)))"
  by (simp add: calculate_balance_def update_dashboard_def total_income_def total_expense_def
      Let_def comprehension_filter)


section \<open>Properties of the numbers of the machine\<close>








section \<open>Reading the examples\<close>

lemma double_examples:
  "double (199 / 2) = 199 / 2" "double (21 / 2) = 21 / 2" "double 12 = 12"
  by code_simp+

lemma decimal_literal_examples:
  "decimal_literal (replace_comma ''99,50'') = Some (199 / 2)"
  "decimal_literal (replace_comma ''10.5'') = Some (21 / 2)"
  "decimal_literal (replace_comma ''12'') = Some 12"
  "decimal_literal (replace_comma ''abc'') = None"
  by (simp_all add: decimal_literal_def replace_comma_def is_digit_def decimal_def
      digit_val_def)

lemma float_literal_99_50: "float_literal (replace_comma ''99,50'') = Some (199 / 2)"
  by (simp add: float_literal_def decimal_literal_examples double_examples)

lemma float_literal_10_5: "float_literal (replace_comma ''10.5'') = Some (21 / 2)"
  by (simp add: float_literal_def decimal_literal_examples double_examples)

lemma float_literal_12: "float_literal (replace_comma ''12'') = Some 12"
  by (simp add: float_literal_def decimal_literal_examples double_examples)

lemma float_literal_abc: "float_literal (replace_comma ''abc'') = None"
  by (simp add: float_literal_def decimal_literal_examples)

lemma strip_example_row: "strip example_row = ''2024-03-01;Expense;Transport;99,50;Bus''"
  by code_simp

lemma split_example_row:
  "split CHR '';'' ''2024-03-01;Expense;Transport;99,50;Bus''
     = [''2024-03-01'', ''Expense'', ''Transport'', ''99,50'', ''Bus'']"
  by simp

lemma row_transaction_example:
  "row_transaction float_literal example_row
     = Some \<lparr>t_type = ''Expense'', t_category = ''Transport'', t_amount = 199 / 2,
             t_date = ''2024-03-01'', t_description = ''Bus''\<rparr>"
  by (simp add: row_transaction_def strip_example_row split_example_row float_literal_99_50)

lemma strip_example_row_salary:
  "strip example_row_salary = ''2024-03-02;'' @ expense @ '';'' @ salary @ '';10.5;Pay''"
  by code_simp

lemma split_example_row_salary:
  "split CHR '';'' (''2024-03-02;'' @ expense @ '';'' @ salary @ '';10.5;Pay'')
     = [''2024-03-02'', expense, salary, ''10.5'', ''Pay'']"
  by (simp add: expense_def salary_def)

lemma row_transaction_example_salary:
  "row_transaction float_literal example_row_salary
     = Some \<lparr>t_type = expense, t_category = salary, t_amount = 21 / 2,
             t_date = ''2024-03-02'', t_description = ''Pay''\<rparr>"
  by (simp only: row_transaction_def strip_example_row_salary split_example_row_salary
      list.case float_literal_10_5 option.map)

lemma strip_example_row_undated:
  "strip example_row_undated = ''soon;'' @ expense @ '';'' @ food @ '';12;Lunch''"
  by code_simp

lemma split_example_row_undated:
  "split CHR '';'' (''soon;'' @ expense @ '';'' @ food @ '';12;Lunch'')
     = [''soon'', expense, food, ''12'', ''Lunch'']"
  by (simp add: expense_def food_def)

lemma row_transaction_example_undated:
  "row_transaction float_literal example_row_undated
     = Some \<lparr>t_type = expense, t_category = food, t_amount = 12,
             t_date = ''soon'', t_description = ''Lunch''\<rparr>"
  by (simp only: row_transaction_def strip_example_row_undated split_example_row_undated
      list.case float_literal_12 option.map)

lemma strip_example_row_999:
  "strip example_row_999 = ''0999-01-05;'' @ expense @ '';'' @ food @ '';12;Lunch''"
  by code_simp

lemma split_example_row_999:
  "split CHR '';'' (''0999-01-05;'' @ expense @ '';'' @ food @ '';12;Lunch'')
     = [''0999-01-05'', expense, food, ''12'', ''Lunch'']"
  by (simp add: expense_def food_def)

lemma row_transaction_example_999:
  "row_transaction float_literal example_row_999
     = Some \<lparr>t_type = expense, t_category = food, t_amount = 12,
             t_date = ''0999-01-05'', t_description = ''Lunch''\<rparr>"
  by (simp only: row_transaction_def strip_example_row_999 split_example_row_999
      list.case float_literal_12 option.map)

lemma strip_short_row: "strip ''a;b'' = ''a;b''"
  by code_simp

lemma row_transaction_alt:
  "row_transaction float_of row =
     (let parts = split CHR '';'' (strip row) in
      if length parts < 5 then None
      else map_option
             (\<lambda>a. \<lparr>t_type = parts ! 1, t_category = parts ! 2, t_amount = a,
                   t_date = parts ! 0, t_description = parts ! 4\<rparr>)
             (float_of (replace_comma (parts ! 3))))"
  by (auto simp: row_transaction_def Let_def split: list.splits)

lemma import_lines_rows:
  "import_lines float_of lines (ts, n) =
     (ts @ List.map_filter (row_transaction float_of) lines,
      n + length (List.map_filter (row_transaction float_of) lines))"
proof (induction lines arbitrary: ts n)
  case Nil
  then show ?case by simp
next
  case (Cons line lines)
  show ?case
  proof (cases "row_transaction float_of line")
    case None
    then show ?thesis
      using Cons.IH [of ts n]
      by (auto simp: row_transaction_alt Let_def split: if_splits)
  next
    case (Some t)
    then show ?thesis
      using Cons.IH [of "ts @ [t]" "n + 1"]
      by (auto simp: row_transaction_alt Let_def split: if_splits)
  qed
qed

lemma import_from_csv_state:
  "snd (import_from_csv e (Some (header # rows)) s)
     = save_data (s\<lparr>transactions :=
                      transactions s @ List.map_filter (row_transaction (env_float e)) rows\<rparr>)"
  by (simp add: import_from_csv_def import_lines_rows Let_def)

lemma imported_examples:
  "snd (import_from_csv example_env (Some [example_header, example_row, example_row_salary])
         initial_app)
     = save_data (initial_app\<lparr>transactions :=
         [\<lparr>t_type = ''Expense'', t_category = ''Transport'', t_amount = 199 / 2,
           t_date = ''2024-03-01'', t_description = ''Bus''\<rparr>,
          \<lparr>t_type = expense, t_category = salary, t_amount = 21 / 2,
           t_date = ''2024-03-02'', t_description = ''Pay''\<rparr>]\<rparr>)"
  "snd (import_from_csv example_env (Some [example_header, example_row_undated]) initial_app)
     = save_data (initial_app\<lparr>transactions :=
         [\<lparr>t_type = expense, t_category = food, t_amount = 12,
           t_date = ''soon'', t_description = ''Lunch''\<rparr>]\<rparr>)"
  "snd (import_from_csv example_env (Some [example_header, example_row_999]) initial_app)
     = save_data (initial_app\<lparr>transactions :=
         [\<lparr>t_type = expense, t_category = food, t_amount = 12,
           t_date = ''0999-01-05'', t_description = ''Lunch''\<rparr>]\<rparr>)"
  by (simp_all add: import_from_csv_state example_env_def initial_app_def
      row_transaction_example row_transaction_example_salary row_transaction_example_undated
      row_transaction_example_999)


section \<open>Properties of the month chart\<close>

subsection \<open>Digits and the key of a month\<close>

lemma digit_char_simps:
  "digit_char 0 = CHR ''0''" "digit_char 1 = CHR ''1''" "digit_char 2 = CHR ''2''"
  "digit_char 3 = CHR ''3''" "digit_char 4 = CHR ''4''" "digit_char 5 = CHR ''5''"
  "digit_char 6 = CHR ''6''" "digit_char 7 = CHR ''7''" "digit_char 8 = CHR ''8''"
  "digit_char 9 = CHR ''9''" "digit_char (Suc 0) = CHR ''1''"
  by (simp_all add: digit_char_def char_of_def bit_Suc_0_iff)

lemma digit_val_simps:
  "digit_val CHR ''0'' = 0" "digit_val CHR ''1'' = 1" "digit_val CHR ''2'' = 2"
  "digit_val CHR ''3'' = 3" "digit_val CHR ''4'' = 4" "digit_val CHR ''5'' = 5"
  "digit_val CHR ''6'' = 6" "digit_val CHR ''7'' = 7" "digit_val CHR ''8'' = 8"
  "digit_val CHR ''9'' = 9"
  by (simp_all add: digit_val_def)

lemma digit_roundtrip: "is_digit c \<Longrightarrow> digit_char (digit_val c) = c"
  by (auto simp: is_digit_def digit_char_simps digit_val_simps)

lemma digit_val_less: "is_digit c \<Longrightarrow> digit_val c < 10"
  by (auto simp: is_digit_def digit_val_simps)

lemma str_nat_snoc:
  assumes "1 \<le> n" "d < 10"
  shows "str_nat (10 * n + d) = str_nat n @ [digit_char d]"
proof -
  have "\<not> 10 * n + d < 10" "(10 * n + d) div 10 = n" "(10 * n + d) mod 10 = d"
    using assms by simp_all
  then show ?thesis
    by (subst str_nat.simps) (simp only: if_False)
qed

lemma str_nat_four:
  assumes "a < 10" "b < 10" "c < 10" "e < 10" "1 \<le> a"
  shows "str_nat (10 * (10 * (10 * a + b) + c) + e)
           = [digit_char a, digit_char b, digit_char c, digit_char e]"
proof -
  have s1: "str_nat a = [digit_char a]"
    using assms by (subst str_nat.simps) simp
  have p2: "1 \<le> 10 * a + b" and p3: "1 \<le> 10 * (10 * a + b) + c"
    using assms by simp_all
  show ?thesis
    unfolding str_nat_snoc [OF p3 \<open>e < 10\<close>] str_nat_snoc [OF p2 \<open>c < 10\<close>]
      str_nat_snoc [OF \<open>1 \<le> a\<close> \<open>b < 10\<close>] s1
    by simp
qed

lemma lead_digit:
  "1000 \<le> 10 * (10 * (10 * A + B) + C) + E \<Longrightarrow> B < 10 \<Longrightarrow> C < 10 \<Longrightarrow> E < 10
     \<Longrightarrow> 1 \<le> (A::nat)"
  by (cases A) simp_all

lemma length_ten:
  "length (d :: 'a list) = 10 \<Longrightarrow> \<exists>a b c e f g h i j k. d = [a, b, c, e, f, g, h, i, j, k]"
  by (simp add: numeral_eq_Suc length_Suc_conv) blast

lemma strptime_ten:
  assumes "strptime [a, b, c, e, f, g, h, i, j, k] = Some (y, m, dd)"
  shows "is_digit a \<and> is_digit b \<and> is_digit c \<and> is_digit e \<and> f = CHR ''-''
       \<and> y = decimal [a, b, c, e]
       \<and> (\<exists>rest. month_field [g, h, i, j, k] = Some (m, rest) \<and> day_field rest \<noteq> None)"
  using assms
  by (simp add: Let_def del: month_field.simps day_field.simps
      split: if_splits option.splits prod.splits)

lemma month_two_digits:
  assumes "month_field [g, h, i, j, k] = Some (m, rest)" "day_field rest \<noteq> None"
  shows "i = CHR ''-'' \<and> digit_char (m div 10) = g \<and> digit_char (m mod 10) = h"
  using assms
  by (auto simp: two_digits_def digit_val_simps digit_char_simps split: if_splits)


lemma iso_date_month_key:
  assumes "iso_date d"
  shows "month_key d = Some (take 7 d)"
proof -
  from assms have "length d = 10" by (simp add: iso_date_def)
  from length_ten [OF this] obtain a b c e f g h i j k
    where d: "d = [a, b, c, e, f, g, h, i, j, k]" by blast
  from assms have c: "case strptime d of None \<Rightarrow> False | Some (y, m, dd) \<Rightarrow> 1000 \<le> y"
    unfolding iso_date_def by (rule conjunct2)
  obtain y m dd where p: "strptime d = Some (y, m, dd)" and y: "1000 \<le> y"
  proof (cases "strptime d")
    case None
    with c show ?thesis by (simp only: option.case)
  next
    case (Some v)
    obtain y m dd where v: "v = (y, m, dd)" by (cases v)
    from c have "1000 \<le> y" unfolding Some v by (simp only: option.case prod.case)
    with Some v that show ?thesis by blast
  qed
  note st = strptime_ten [OF p [unfolded d]]
  from st have dig: "is_digit a" "is_digit b" "is_digit c" "is_digit e"
      and f: "f = CHR ''-''" and yy: "y = decimal [a, b, c, e]" by blast+
  from st obtain rest where
      mf: "month_field [g, h, i, j, k] = Some (m, rest)" and df: "day_field rest \<noteq> None"
    by blast
  from month_two_digits [OF mf df]
  have mm: "digit_char (m div 10) = g" "digit_char (m mod 10) = h" by blast+
  have yv: "y = 10 * (10 * (10 * digit_val a + digit_val b) + digit_val c) + digit_val e"
    unfolding yy decimal_def by simp
  have lt: "digit_val a < 10" "digit_val b < 10" "digit_val c < 10" "digit_val e < 10"
    using dig by (simp_all add: digit_val_less)
  have "1 \<le> digit_val a"
    using y lt(2-4) unfolding yv by (rule lead_digit)
  with lt
  have "str_nat y = [digit_char (digit_val a), digit_char (digit_val b),
                     digit_char (digit_val c), digit_char (digit_val e)]"
    unfolding yv by (rule str_nat_four)
  then have sy: "str_nat y = [a, b, c, e]" using dig by (simp only: digit_roundtrip)
  have "month_key d = Some (strftime_Y_m (y, m, dd))"
    by (simp only: month_key_def p option.map)
  also have "strftime_Y_m (y, m, dd) = [a, b, c, e, f, g, h]"
    unfolding strftime_Y_m_def prod.case sy mm f by simp
  also have "\<dots> = take 7 d"
    unfolding d by simp
  finally show ?thesis .
qed

subsection \<open>The loop over the transactions\<close>

lemma month_entry_update:
  "month_entry (AList.update key v months) k = (if k = key then v else month_entry months k)"
  by (simp add: month_entry_def update_conv')

lemma month_sums_total:
  "\<forall>t \<in> set ts. month_key (t_date t) \<noteq> None \<Longrightarrow> month_sums ts months \<noteq> None"
  by (induction ts arbitrary: months) (auto split: prod.splits)

lemma month_sums_Cons:
  "month_key (t_date t) = Some key \<Longrightarrow>
   month_sums (t # ts) months =
     month_sums ts
       (AList.update key
          (if t_type t = income
           then (fst (month_entry months key) + t_amount t, snd (month_entry months key))
           else (fst (month_entry months key), snd (month_entry months key) + t_amount t))
          months)"
  by (cases "month_entry months key") simp

lemma month_sums_step:
  assumes "month_sums (t # ts) months = Some months'"
  obtains key v where "month_key (t_date t) = Some key"
    and "month_sums ts (AList.update key v months) = Some months'"
    and "v = (if t_type t = income
              then (fst (month_entry months key) + t_amount t, snd (month_entry months key))
              else (fst (month_entry months key), snd (month_entry months key) + t_amount t))"
proof (cases "month_key (t_date t)")
  case None
  with assms show ?thesis by simp
next
  case (Some key)
  from assms show ?thesis
    unfolding month_sums_Cons [OF Some] by (rule that [OF Some _ refl])
qed

lemma month_sums_keys:
  "month_sums ts months = Some months'
     \<Longrightarrow> fst ` set months' = fst ` set months \<union> {k. \<exists>t \<in> set ts. month_key (t_date t) = Some k}"
proof (induction ts arbitrary: months)
  case Nil
  then show ?case by simp
next
  case (Cons t ts)
  from Cons.prems obtain key v where key: "month_key (t_date t) = Some key"
    and rec: "month_sums ts (AList.update key v months) = Some months'"
    by (rule month_sums_step)
  have "{k. \<exists>u \<in> set (t # ts). month_key (t_date u) = Some k}
          = insert key {k. \<exists>u \<in> set ts. month_key (t_date u) = Some k}"
    using key by auto
  then show ?case
    unfolding Cons.IH [OF rec] dom_update by blast
qed

lemma month_sums_distinct:
  "month_sums ts months = Some months' \<Longrightarrow> distinct (map fst months)
     \<Longrightarrow> distinct (map fst months')"
proof (induction ts arbitrary: months)
  case Nil
  then show ?case by simp
next
  case (Cons t ts)
  from Cons.prems(1) obtain key v
    where rec: "month_sums ts (AList.update key v months) = Some months'"
    by (rule month_sums_step)
  from Cons.prems(2) have "distinct (map fst (AList.update key v months))"
    by (rule distinct_update)
  with rec show ?case by (rule Cons.IH)
qed

lemma month_sums_entry:
  "month_sums ts months = Some months' \<Longrightarrow>
   month_entry months' k =
     (fst (month_entry months k)
        + sum_list (map t_amount
            (filter (\<lambda>t. t_type t = income \<and> month_key (t_date t) = Some k) ts)),
      snd (month_entry months k)
        + sum_list (map t_amount
            (filter (\<lambda>t. t_type t \<noteq> income \<and> month_key (t_date t) = Some k) ts)))"
proof (induction ts arbitrary: months)
  case Nil
  then show ?case by simp
next
  case (Cons t ts)
  from Cons.prems obtain key v where key: "month_key (t_date t) = Some key"
    and rec: "month_sums ts (AList.update key v months) = Some months'"
    and v: "v = (if t_type t = income
              then (fst (month_entry months key) + t_amount t, snd (month_entry months key))
              else (fst (month_entry months key), snd (month_entry months key) + t_amount t))"
    by (rule month_sums_step)
  show ?case
    unfolding Cons.IH [OF rec] month_entry_update
    by (simp add: key v add.assoc)
qed

lemma distinct_map_insort_key:
  "distinct (map f (insort_key f x xs)) \<longleftrightarrow> f x \<notin> f ` set xs \<and> distinct (map f xs)"
  by (induction xs) (auto simp: set_insort_key)

lemma distinct_map_sort_key: "distinct (map f (sort_key f xs)) \<longleftrightarrow> distinct (map f xs)"
  by (induction xs) (simp_all add: distinct_map_insort_key)

lemma income_not_expense: "income \<noteq> expense"
  by (simp add: income_def expense_def)


lemma transactions_save_data: "transactions (save_data s) = transactions s"
  by (simp add: save_data_def)

lemma update_chart_save_data: "update_chart (save_data s) = update_chart s"
  by (simp add: update_chart_def transactions_save_data)

lemma total_expense_save_data: "total_expense (save_data s) = total_expense s"
  by (simp add: total_expense_def transactions_save_data)

lemma iso_date_march: "iso_date ''2024-03-01''" "iso_date ''2024-03-02''"
  by (simp_all add: iso_date_def is_digit_def decimal_def digit_val_simps two_digits_def
      days_in_month_def is_leap_def)

lemma month_key_march:
  "month_key ''2024-03-01'' = Some ''2024-03''" "month_key ''2024-03-02'' = Some ''2024-03''"
  by (simp_all add: iso_date_month_key iso_date_march)

lemma month_key_soon: "month_key ''soon'' = None"
  by (simp add: month_key_def)

lemma month_key_999: "month_key ''0999-01-05'' = Some ''999-01''"
  by code_simp

lemma expense_not_Expense: "''Expense'' \<noteq> income" "''Expense'' \<noteq> expense"
  by (simp_all add: income_def expense_def)

text \<open>
  C4, as the specification states it, does not hold for every sequence of transactions.
  An import stores type and date as the file gives them. For the two rows imported in
  March 2024, one of type \<^verbatim>\<open>Expense\<close>, which is no type of the program, and one of the
  expense type, the chart shows an expense of 110 for the month, the sum of both, where the
  expense transactions add up to 10.5. A date of the year 999 is keyed \<^verbatim>\<open>999-01\<close>, which
  is not the beginning of the date. For a date that cannot be read there is no chart.
\<close>

theorem monthly_series_types_and_dates_unchecked:
  "transactions (snd (import_from_csv example_env
       (Some [example_header, example_row, example_row_salary]) initial_app))
     = [\<lparr>t_type = ''Expense'', t_category = ''Transport'', t_amount = 199 / 2,
         t_date = ''2024-03-01'', t_description = ''Bus''\<rparr>,
        \<lparr>t_type = expense, t_category = salary, t_amount = 21 / 2,
         t_date = ''2024-03-02'', t_description = ''Pay''\<rparr>]
   \<and> update_chart (snd (import_from_csv example_env
       (Some [example_header, example_row, example_row_salary]) initial_app))
     = Some [(''2024-03'', 0, 110)]
   \<and> total_expense (snd (import_from_csv example_env
       (Some [example_header, example_row, example_row_salary]) initial_app)) = 21 / 2
   \<and> transactions (snd (import_from_csv example_env
       (Some [example_header, example_row_999]) initial_app))
     = [\<lparr>t_type = expense, t_category = food, t_amount = 12,
         t_date = ''0999-01-05'', t_description = ''Lunch''\<rparr>]
   \<and> update_chart (snd (import_from_csv example_env
       (Some [example_header, example_row_999]) initial_app))
     = Some [(''999-01'', 0, 12)]
   \<and> transactions (snd (import_from_csv example_env
       (Some [example_header, example_row_undated]) initial_app))
     = [\<lparr>t_type = expense, t_category = food, t_amount = 12,
         t_date = ''soon'', t_description = ''Lunch''\<rparr>]
   \<and> update_chart (snd (import_from_csv example_env
       (Some [example_header, example_row_undated]) initial_app))
     = None"
  unfolding imported_examples update_chart_save_data total_expense_save_data
    transactions_save_data
  by (simp add: update_chart_def total_expense_def initial_app_def month_key_march
      month_key_soon month_key_999 month_entry_def expense_not_Expense
      income_not_expense [symmetric])

text \<open>
  C4, amended. For every sequence of transactions whose dates are dates \<^verbatim>\<open>YYYY-MM-DD\<close> of
  the year 1000 or later and whose types are the income or the expense type, the chart of
  months is computed; its keys are the first seven characters of the dates, each once and
  in strictly ascending order; and under each key the income is the sum of the amounts of
  the income transactions of that month, and the expense the sum of the amounts of the
  expense transactions of that month.
\<close>


theorem monthly_series_grouped_and_sorted:
  assumes "\<forall>t \<in> set (transactions s).
             iso_date (t_date t) \<and> (t_type t = income \<or> t_type t = expense)"
  shows "\<exists>sorted_months. update_chart s = Some sorted_months
       \<and> sorted_wrt (<) (map fst sorted_months)
       \<and> fst ` set sorted_months = (\<lambda>t. take 7 (t_date t)) ` set (transactions s)
       \<and> (\<forall>(key, income_sum, expense_sum) \<in> set sorted_months.
             income_sum = sum_list (map t_amount
                 (filter (\<lambda>t. t_type t = income \<and> take 7 (t_date t) = key) (transactions s)))
           \<and> expense_sum = sum_list (map t_amount
                 (filter (\<lambda>t. t_type t = expense \<and> take 7 (t_date t) = key) (transactions s))))"
proof -
  let ?ts = "transactions s"
  have key: "month_key (t_date t) = Some (take 7 (t_date t))" if "t \<in> set ?ts" for t
    using assms that by (simp add: iso_date_month_key)
  have ty: "t_type t \<noteq> income \<longleftrightarrow> t_type t = expense" if "t \<in> set ?ts" for t
    using assms that income_not_expense by auto
  from key have "\<forall>t \<in> set ?ts. month_key (t_date t) \<noteq> None" by simp
  then obtain months where months: "month_sums ?ts [] = Some months"
    using month_sums_total [of ?ts "[]"] by blast
  have chart: "update_chart s = Some (sort_key fst months)"
    by (simp add: update_chart_def months)
  have dist: "distinct (map fst months)"
    using months by (rule month_sums_distinct) simp
  have "sorted (map fst (sort_key fst months))" by (rule sorted_sort_key)
  moreover have "distinct (map fst (sort_key fst months))"
    using dist by (simp only: distinct_map_sort_key)
  ultimately have ascending: "sorted_wrt (<) (map fst (sort_key fst months))"
    by (simp only: strict_sorted_iff)
  have "fst ` set months = {k. \<exists>t \<in> set ?ts. month_key (t_date t) = Some k}"
    using month_sums_keys [OF months] by simp
  also have "\<dots> = (\<lambda>t. take 7 (t_date t)) ` set ?ts"
    using key by auto
  finally have keys: "fst ` set (sort_key fst months) = (\<lambda>t. take 7 (t_date t)) ` set ?ts"
    by simp
  have inc: "filter (\<lambda>t. t_type t = income \<and> month_key (t_date t) = Some k) ?ts
             = filter (\<lambda>t. t_type t = income \<and> take 7 (t_date t) = k) ?ts" for k
    by (rule filter_cong) (simp_all add: key)
  have exp: "filter (\<lambda>t. t_type t \<noteq> income \<and> month_key (t_date t) = Some k) ?ts
             = filter (\<lambda>t. t_type t = expense \<and> take 7 (t_date t) = k) ?ts" for k
    by (rule filter_cong) (simp_all add: key ty)
  have sums: "i = sum_list (map t_amount
                 (filter (\<lambda>t. t_type t = income \<and> take 7 (t_date t) = k) ?ts))
            \<and> e = sum_list (map t_amount
                 (filter (\<lambda>t. t_type t = expense \<and> take 7 (t_date t) = k) ?ts))"
    if "(k, i, e) \<in> set (sort_key fst months)" for k i e
  proof -
    from that have "(k, i, e) \<in> set months" by simp
    with dist have "map_of months k = Some (i, e)" by simp
    then have "month_entry months k = (i, e)" by (simp add: month_entry_def)
    with month_sums_entry [OF months, of k] show ?thesis
      by (simp add: month_entry_def inc exp)
  qed
  show ?thesis
    using chart ascending keys sums by blast
qed

lemma iso_date_examples:
  "iso_date ''2024-01-05''" "iso_date ''2024-01-10''" "iso_date ''2024-02-01''"
  by (simp_all add: iso_date_def is_digit_def decimal_def digit_val_simps two_digits_def
      days_in_month_def is_leap_def)

lemma month_key_examples:
  "month_key ''2024-01-05'' = Some ''2024-01''" "month_key ''2024-01-10'' = Some ''2024-01''"
  "month_key ''2024-02-01'' = Some ''2024-02''"
  by (simp_all add: iso_date_month_key iso_date_examples)

lemma update_chart_example:
  "update_chart example_app = Some [(''2024-01'', 1000, 200), (''2024-02'', 0, 50)]"
  by (simp add: update_chart_def example_app_def example_transactions_def initial_app_def
      month_key_examples month_entry_def income_not_expense [symmetric] less_eq_char_def)

theorem monthly_series_grouped_and_sorted_witness:
  "iso_date ''2024-01-05'' \<and> iso_date ''2024-01-10'' \<and> iso_date ''2024-02-01''
   \<and> update_chart example_app = Some [(''2024-01'', 1000, 200), (''2024-02'', 0, 50)]
   \<and> (\<exists>sorted_months. update_chart example_app = Some sorted_months
        \<and> sorted_wrt (<) (map fst sorted_months)
        \<and> fst ` set sorted_months = {''2024-01'', ''2024-02''})"
proof -
  have h: "\<forall>t \<in> set (transactions example_app).
             iso_date (t_date t) \<and> (t_type t = income \<or> t_type t = expense)"
    by (simp add: example_app_def example_transactions_def initial_app_def iso_date_examples)
  have "(\<lambda>t. take 7 (t_date t)) ` set (transactions example_app) = {''2024-01'', ''2024-02''}"
    by (simp add: example_app_def example_transactions_def initial_app_def)
  with monthly_series_grouped_and_sorted [OF h] show ?thesis
    by (auto simp: iso_date_examples update_chart_example)
qed


section \<open>Properties of the sums by category\<close>




















section \<open>Properties of recording a transaction\<close>

lemma empty_not_income_category: "'''' \<notin> set (categories_of income)"
  by (simp add: categories_of_def budget_categories_def categories_income_def salary_def
      freelance_def investments_def gifts_def other_def)

lemma categories_of_income: "categories_of income = categories_income"
  by (simp add: categories_of_def budget_categories_def)

lemma double_add_0_99_50: "double_add 0 (199 / 2) = 199 / 2"
  by code_simp

lemma update_pie_charts_save_data: "update_pie_charts e (save_data s) = update_pie_charts e s"
  by (simp add: update_pie_charts_def transactions_save_data)

lemma update_pie_charts_returns_save_data:
  "update_pie_charts_returns e (save_data s) = update_pie_charts_returns e s"
  by (simp add: update_pie_charts_returns_def update_pie_charts_save_data)

lemma update_dashboard_returns_save_data:
  "update_dashboard_returns e (save_data s) = update_dashboard_returns e s"
  by (simp add: update_dashboard_returns_def update_pie_charts_returns_save_data
      update_chart_save_data split: option.split)

lemma dashboard_first_income:
  "update_dashboard_returns example_env
     (initial_app\<lparr>transactions :=
        [\<lparr>t_type = income, t_category = '''', t_amount = 199 / 2, t_date = ''2024-03-01'',
          t_description = ''''\<rparr>]\<rparr>)"
  by (simp add: update_dashboard_returns_def update_chart_def update_pie_charts_returns_def
      update_pie_charts_def pie_returns_def initial_app_def example_env_def month_key_march
      month_entry_def add_to_def double_add_0_99_50 pie_draws_def income_not_expense)

lemma dashboard_undated:
  "\<not> update_dashboard_returns e
     (s\<lparr>transactions :=
        \<lparr>t_type = ty, t_category = c, t_amount = a, t_date = ''soon'', t_description = d\<rparr> # ts\<rparr>)"
  by (simp add: update_dashboard_returns_def update_chart_def month_key_soon)

text \<open>
  C2. The specification has a category outside the list of the type refused, with the
  sequence of transactions as it was. The program, when the window has just opened: the
  type selector shows the income type and the category selector is empty, because the slot
  that fills it has not run; with the amount 99,50 the button records an income whose
  category is the empty text, which is no income category. Once the slot has run, the
  selector shows a category of the type.
\<close>

theorem add_transaction_at_startup_records_unlisted_category:
  "category_combo (create_transaction_tab ''2024-03-01'') = ''''
   \<and> '''' \<notin> set (categories_of
         (transaction_type_combo (create_transaction_tab ''2024-03-01'')))
   \<and> fst (add_transaction example_env
         ((create_transaction_tab ''2024-03-01'')\<lparr>amount_input := ''99,50''\<rparr>) initial_app)
       = Added
   \<and> transactions (snd (add_transaction example_env
         ((create_transaction_tab ''2024-03-01'')\<lparr>amount_input := ''99,50''\<rparr>) initial_app))
       = [\<lparr>t_type = income, t_category = '''', t_amount = 199 / 2, t_date = ''2024-03-01'',
           t_description = ''''\<rparr>]
   \<and> length (transactions initial_app) = 0
   \<and> category_combo (update_categories (create_transaction_tab ''2024-03-01'')) = salary
   \<and> salary \<in> set (categories_of income)"
proof -
  have "env_float example_env (replace_comma ''99,50'') = Some (199 / 2)"
    by (simp add: example_env_def float_literal_99_50)
  moreover have "transactions initial_app = []"
    by (simp add: initial_app_def)
  moreover have "category_combo (update_categories (create_transaction_tab ''2024-03-01''))
                   = salary"
    by (simp add: update_categories_def create_transaction_tab_def categories_of_income
        categories_income_def)
  moreover have "salary \<in> set (categories_of income)"
    by (simp add: categories_of_income categories_income_def)
  ultimately show ?thesis
    using dashboard_first_income
    by (simp add: add_transaction_def Let_def create_transaction_tab_def
        update_dashboard_returns_save_data transactions_save_data empty_not_income_category)
qed

text \<open>
  C3, as the specification states it, does not hold in every state of the ledger. After an
  import has stored a row whose date is not a date, the amount 99,50 converts, and the
  transaction is appended and written, but the redrawing of the dashboard that follows
  raises, and the handler has no \<^verbatim>\<open>try\<close> around it.
\<close>

theorem add_transaction_raises_after_append:
  "env_float example_env (replace_comma (amount_input
       ((create_transaction_tab ''2024-03-01'')\<lparr>amount_input := ''99,50''\<rparr>)))
     = Some (199 / 2)
   \<and> fst (add_transaction example_env
         ((create_transaction_tab ''2024-03-01'')\<lparr>amount_input := ''99,50''\<rparr>)
         (snd (import_from_csv example_env (Some [example_header, example_row_undated])
                 initial_app)))
       = Raised
   \<and> length (transactions (snd (add_transaction example_env
         ((create_transaction_tab ''2024-03-01'')\<lparr>amount_input := ''99,50''\<rparr>)
         (snd (import_from_csv example_env (Some [example_header, example_row_undated])
                 initial_app)))))
       = 2"
proof -
  have "env_float example_env (replace_comma ''99,50'') = Some (199 / 2)"
    by (simp add: example_env_def float_literal_99_50)
  then show ?thesis
    unfolding imported_examples
    by (simp add: add_transaction_def Let_def create_transaction_tab_def
        update_dashboard_returns_save_data transactions_save_data dashboard_undated)
qed

text \<open>
  C3, amended. For every text of the amount: if the text with each comma replaced by a
  point converts to a number, exactly one transaction is appended, which carries that
  number as its amount, the other collections stay as they were and the document is
  written once; the handler then runs to its end exactly when the redrawing of the
  dashboard returns, and otherwise raises, with the transaction appended and written. If
  the text does not convert, the operation fails with the warning, and the transactions,
  the budget limits, the goals, the payments and the file are as before.
\<close>

theorem add_transaction_amount_text:
  "(\<forall>a. env_float e (replace_comma (amount_input form)) = Some a \<longrightarrow>
        transactions (snd (add_transaction e form s))
          = transactions s @
            [\<lparr>t_type = transaction_type_combo form, t_category = category_combo form,
              t_amount = a, t_date = date_edit form,
              t_description = description_input form\<rparr>]
      \<and> budget_limits (snd (add_transaction e form s)) = budget_limits s
      \<and> saving_goals (snd (add_transaction e form s)) = saving_goals s
      \<and> regular_payments (snd (add_transaction e form s)) = regular_payments s
      \<and> data_json (snd (add_transaction e form s))
          = data_json s @
            [document (s\<lparr>transactions := transactions s @
               [\<lparr>t_type = transaction_type_combo form, t_category = category_combo form,
                 t_amount = a, t_date = date_edit form,
                 t_description = description_input form\<rparr>]\<rparr>)]
      \<and> fst (add_transaction e form s)
          = (if update_dashboard_returns e (snd (add_transaction e form s)) then Added
             else Raised))
   \<and> (env_float e (replace_comma (amount_input form)) = None \<longrightarrow>
        add_transaction e form s = (Warning, s))"
  by (simp add: add_transaction_def Let_def save_data_def)

theorem add_transaction_amount_text_witness:
  "env_float example_env (replace_comma (amount_input
       ((create_transaction_tab ''2024-03-01'')\<lparr>amount_input := ''99,50''\<rparr>)))
     = Some (199 / 2)
   \<and> transactions (snd (add_transaction example_env
        ((create_transaction_tab ''2024-03-01'')\<lparr>amount_input := ''99,50''\<rparr>) initial_app))
     = [\<lparr>t_type = income, t_category = '''', t_amount = 199 / 2, t_date = ''2024-03-01'',
         t_description = ''''\<rparr>]
   \<and> fst (add_transaction example_env
        ((create_transaction_tab ''2024-03-01'')\<lparr>amount_input := ''99,50''\<rparr>) initial_app)
     = Added
   \<and> env_float example_env (replace_comma (amount_input
       ((create_transaction_tab ''2024-03-01'')\<lparr>amount_input := ''abc''\<rparr>)))
     = None
   \<and> add_transaction example_env
        ((create_transaction_tab ''2024-03-01'')\<lparr>amount_input := ''abc''\<rparr>) initial_app
     = (Warning, initial_app)"
proof -
  have conv: "env_float example_env (replace_comma ''99,50'') = Some (199 / 2)"
    "env_float example_env (replace_comma ''abc'') = None"
    by (simp_all add: example_env_def float_literal_99_50 float_literal_abc)
  have empty: "transactions initial_app = []"
    by (simp add: initial_app_def)
  from add_transaction_amount_text [of example_env
      "(create_transaction_tab ''2024-03-01'')\<lparr>amount_input := ''99,50''\<rparr>" initial_app]
    add_transaction_amount_text [of example_env
      "(create_transaction_tab ''2024-03-01'')\<lparr>amount_input := ''abc''\<rparr>" initial_app]
    conv empty dashboard_first_income
  show ?thesis
    by (simp add: create_transaction_tab_def add_transaction_def Let_def
        update_dashboard_returns_save_data transactions_save_data)
qed


section \<open>Properties of the tables\<close>

text \<open>
  C6. The table of budget limits has one row for each category with a limit, in the order
  of the dict, with that limit; the spent amount of a row is the sum of the amounts of all
  expense transactions of its category, over the whole sequence of transactions; and the
  row is marked exactly when the spent amount is greater than the limit. The ledger is
  not changed.
\<close>

theorem budget_rows_spent_over_all_history:
  "ledger (update_budget_limits_table w) = ledger w
   \<and> map (\<lambda>row. (b_category row, b_limit row))
         (budget_limits_table (update_budget_limits_table w))
       = budget_limits (ledger w)
   \<and> (\<forall>row \<in> set (budget_limits_table (update_budget_limits_table w)).
         b_spent row
           = sum_list (map t_amount
               (filter (\<lambda>t. t_type t = expense \<and> t_category t = b_category row)
                  (transactions (ledger w))))
       \<and> (b_red row \<longleftrightarrow> b_spent row > b_limit row))"
  by (auto simp: update_budget_limits_table_def budget_limit_row_def Let_def
      comprehension_filter o_def split: prod.splits intro: map_idI)

lemma food_not_salary: "salary \<noteq> food" by (simp add: salary_def food_def)

theorem budget_rows_spent_over_all_history_witness:
  "budget_limits_table (update_budget_limits_table
       \<lparr>ledger = example_app, budget_limits_table = [], goals_table = []\<rparr>)
     = [\<lparr>b_category = food, b_limit = 100, b_spent = 250, b_red = True\<rparr>]"
  using budget_rows_spent_over_all_history
    [of "\<lparr>ledger = example_app, budget_limits_table = [], goals_table = []\<rparr>"]
  by (simp add: update_budget_limits_table_def budget_limit_row_def example_app_def
      example_transactions_def initial_app_def income_not_expense [symmetric]
      food_not_salary)

text \<open>
  C7. For every goal, the progress shown is the saved amount divided by the amount of the
  goal, times 100, when the amount is positive, and 0 otherwise; the colour is green from
  100 on (complete), amber from 75 on (near) and red below (behind). Filling the table of
  goals changes neither the ledger nor the other table.
\<close>

theorem goal_progress_and_bands:
  "ledger (update_goals_table w) = ledger w
   \<and> budget_limits_table (update_goals_table w) = budget_limits_table w
   \<and> length (goals_table (update_goals_table w)) = length (saving_goals (ledger w))
   \<and> (\<forall>i < length (saving_goals (ledger w)).
         r_progress (goals_table (update_goals_table w) ! i)
           = (if g_amount (saving_goals (ledger w) ! i) > 0
              then g_saved (saving_goals (ledger w) ! i)
                     / g_amount (saving_goals (ledger w) ! i) * 100
              else 0)
       \<and> r_colour (goals_table (update_goals_table w) ! i)
           = (if r_progress (goals_table (update_goals_table w) ! i) \<ge> 100 then Green
              else if r_progress (goals_table (update_goals_table w) ! i) \<ge> 75 then Amber
              else Red))"
  by (simp add: update_goals_table_def goal_table_row_def Let_def)

theorem goal_progress_and_bands_witness:
  "r_progress (goals_table (update_goals_table
       \<lparr>ledger = initial_app\<lparr>saving_goals :=
           [\<lparr>g_name = ''Car'', g_amount = 1000, g_target_date = ''2025-01-01'', g_saved = 800\<rparr>,
            \<lparr>g_name = ''Trip'', g_amount = 0, g_target_date = ''2025-06-01'', g_saved = 0\<rparr>]\<rparr>,
        budget_limits_table = [], goals_table = []\<rparr>) ! 0) = 80
   \<and> r_colour (goals_table (update_goals_table
       \<lparr>ledger = initial_app\<lparr>saving_goals :=
           [\<lparr>g_name = ''Car'', g_amount = 1000, g_target_date = ''2025-01-01'', g_saved = 800\<rparr>,
            \<lparr>g_name = ''Trip'', g_amount = 0, g_target_date = ''2025-06-01'', g_saved = 0\<rparr>]\<rparr>,
        budget_limits_table = [], goals_table = []\<rparr>) ! 0) = Amber
   \<and> r_progress (goals_table (update_goals_table
       \<lparr>ledger = initial_app\<lparr>saving_goals :=
           [\<lparr>g_name = ''Car'', g_amount = 1000, g_target_date = ''2025-01-01'', g_saved = 800\<rparr>,
            \<lparr>g_name = ''Trip'', g_amount = 0, g_target_date = ''2025-06-01'', g_saved = 0\<rparr>]\<rparr>,
        budget_limits_table = [], goals_table = []\<rparr>) ! 1) = 0
   \<and> r_colour (goals_table (update_goals_table
       \<lparr>ledger = initial_app\<lparr>saving_goals :=
           [\<lparr>g_name = ''Car'', g_amount = 1000, g_target_date = ''2025-01-01'', g_saved = 800\<rparr>,
            \<lparr>g_name = ''Trip'', g_amount = 0, g_target_date = ''2025-06-01'', g_saved = 0\<rparr>]\<rparr>,
        budget_limits_table = [], goals_table = []\<rparr>) ! 1) = Red"
  using goal_progress_and_bands
    [of "\<lparr>ledger = initial_app\<lparr>saving_goals :=
           [\<lparr>g_name = ''Car'', g_amount = 1000, g_target_date = ''2025-01-01'', g_saved = 800\<rparr>,
            \<lparr>g_name = ''Trip'', g_amount = 0, g_target_date = ''2025-06-01'', g_saved = 0\<rparr>]\<rparr>,
        budget_limits_table = [], goals_table = []\<rparr>"]
  by (simp add: update_goals_table_def goal_table_row_def initial_app_def)


section \<open>Properties of the import\<close>

lemma strptime_march: "strptime ''2024-03-01'' = Some (2024, 3, 1)"
  by (simp add: is_digit_def decimal_def digit_val_simps two_digits_def days_in_month_def
      is_leap_def)

lemma start_date_example: "start_date example_env = Some (2024, 3, 1, 43200000000)"
  by (simp add: start_date_def example_env_def)

lemma stats_transactions_example:
  "stats_transactions example_env
     [\<lparr>t_type = ''Expense'', t_category = ''Transport'', t_amount = 199 / 2,
       t_date = ''2024-03-01'', t_description = ''Bus''\<rparr>] = Some []"
  by (simp add: stats_transactions_def strptime_march start_date_example on_or_after_def
      del: strptime.simps)

lemma dashboard_example_row:
  "update_dashboard_returns example_env
     (initial_app\<lparr>transactions :=
        [\<lparr>t_type = ''Expense'', t_category = ''Transport'', t_amount = 199 / 2,
          t_date = ''2024-03-01'', t_description = ''Bus''\<rparr>]\<rparr>)"
  by (simp add: update_dashboard_returns_def update_chart_def update_pie_charts_returns_def
      update_pie_charts_def pie_returns_def initial_app_def month_key_march month_entry_def
      expense_not_Expense)

lemma all_tabs_example_row:
  "update_all_tabs_returns example_env
     (initial_app\<lparr>transactions :=
        [\<lparr>t_type = ''Expense'', t_category = ''Transport'', t_amount = 199 / 2,
          t_date = ''2024-03-01'', t_description = ''Bus''\<rparr>]\<rparr>)"
  by (simp add: update_all_tabs_returns_def dashboard_example_row update_stats_returns_def
      stats_transactions_example pie_returns_def)

lemma update_all_tabs_returns_save_data:
  "update_all_tabs_returns e (save_data s) = update_all_tabs_returns e s"
  by (simp add: update_all_tabs_returns_def update_dashboard_returns_save_data
      update_stats_returns_def transactions_save_data)

text \<open>
  C8, as the specification states it, does not hold for every file: from a file without
  any line no header can be taken, the import is reported as failed, and nothing is
  appended or written.
\<close>

theorem import_empty_file_not_persisted:
  "fst (import_from_csv example_env (Some []) initial_app) = Import_failed
   \<and> data_json (snd (import_from_csv example_env (Some []) initial_app))
       = data_json initial_app
   \<and> transactions (snd (import_from_csv example_env (Some []) initial_app)) = []"
  by (simp add: import_from_csv_def initial_app_def)

text \<open>
  C8, amended. For every file with at least one line, the import skips the first line and
  appends, in the order of the file, the transaction of every other line that has one, then
  writes the document once, with all of them in it. A line with fewer than five fields
  between semicolons has none; a line with five or more has one exactly when its fourth
  field converts once its commas are points, and it carries the first five fields as they
  are. After the writing the tabs are redrawn: when that returns, the count of the appended
  transactions is notified, and when it raises, a failed import is reported, with the
  transactions appended and written all the same. A file without lines gives a reported
  failure and leaves the state and the file as they were. In particular the row
  \<^verbatim>\<open>2024-03-01;Expense;Transport;99,50;Bus\<close> gives one transaction, with the amount 99.50
  and the category Transport.
\<close>

theorem import_from_csv_rows:
  "import_from_csv e (Some (header # rows)) s =
     (if update_all_tabs_returns e
           (save_data (s\<lparr>transactions :=
              transactions s @ List.map_filter (row_transaction (env_float e)) rows\<rparr>))
      then Imported (length (List.map_filter (row_transaction (env_float e)) rows))
      else Import_failed,
      save_data (s\<lparr>transactions :=
                     transactions s @ List.map_filter (row_transaction (env_float e)) rows\<rparr>))
   \<and> transactions (snd (import_from_csv e (Some (header # rows)) s))
       = transactions s @ List.map_filter (row_transaction (env_float e)) rows
   \<and> data_json (snd (import_from_csv e (Some (header # rows)) s))
       = data_json s @
         [document (s\<lparr>transactions :=
            transactions s @ List.map_filter (row_transaction (env_float e)) rows\<rparr>)]
   \<and> (\<forall>row. length (split CHR '';'' (strip row)) < 5
         \<longrightarrow> row_transaction (env_float e) row = None)
   \<and> (\<forall>row. \<not> length (split CHR '';'' (strip row)) < 5 \<longrightarrow>
         row_transaction (env_float e) row =
           map_option
             (\<lambda>a. \<lparr>t_type = split CHR '';'' (strip row) ! 1,
                   t_category = split CHR '';'' (strip row) ! 2, t_amount = a,
                   t_date = split CHR '';'' (strip row) ! 0,
                   t_description = split CHR '';'' (strip row) ! 4\<rparr>)
             (env_float e (replace_comma (split CHR '';'' (strip row) ! 3))))
   \<and> import_from_csv e (Some []) s = (Import_failed, s)
   \<and> List.map_filter (row_transaction float_literal) [example_row]
       = [\<lparr>t_type = ''Expense'', t_category = ''Transport'', t_amount = 199 / 2,
           t_date = ''2024-03-01'', t_description = ''Bus''\<rparr>]"
  by (simp add: import_from_csv_def import_lines_rows save_data_def row_transaction_alt Let_def
      row_transaction_example [unfolded row_transaction_alt Let_def])

theorem import_from_csv_rows_witness:
  "length (split CHR '';'' (strip ''a;b'')) < 5
   \<and> row_transaction float_literal ''a;b'' = None
   \<and> \<not> length (split CHR '';'' (strip example_row)) < 5
   \<and> row_transaction float_literal example_row
       = Some \<lparr>t_type = ''Expense'', t_category = ''Transport'', t_amount = 199 / 2,
               t_date = ''2024-03-01'', t_description = ''Bus''\<rparr>
   \<and> transactions (snd (import_from_csv example_env
         (Some [example_header, ''a;b'', example_row]) initial_app))
       = [\<lparr>t_type = ''Expense'', t_category = ''Transport'', t_amount = 199 / 2,
           t_date = ''2024-03-01'', t_description = ''Bus''\<rparr>]
   \<and> fst (import_from_csv example_env
         (Some [example_header, ''a;b'', example_row]) initial_app) = Imported 1
   \<and> fst (import_from_csv example_env
         (Some [example_header, example_row_undated]) initial_app) = Import_failed
   \<and> transactions (snd (import_from_csv example_env
         (Some [example_header, example_row_undated]) initial_app))
       = [\<lparr>t_type = expense, t_category = food, t_amount = 12,
           t_date = ''soon'', t_description = ''Lunch''\<rparr>]"
proof -
  have float: "env_float example_env = float_literal"
    by (simp add: example_env_def)
  have empty: "transactions initial_app = []"
    by (simp add: initial_app_def)
  have undated: "\<not> update_all_tabs_returns example_env
     (initial_app\<lparr>transactions :=
        [\<lparr>t_type = expense, t_category = food, t_amount = 12, t_date = ''soon'',
          t_description = ''Lunch''\<rparr>]\<rparr>)"
    by (simp add: update_all_tabs_returns_def dashboard_undated)
  from import_from_csv_rows [of example_env example_header "[''a;b'', example_row]" initial_app]
    import_from_csv_rows [of example_env example_header "[example_row_undated]" initial_app]
    all_tabs_example_row undated
  show ?thesis
    by (simp add: float empty strip_short_row strip_example_row split_example_row
        row_transaction_example row_transaction_example_undated
        update_all_tabs_returns_save_data transactions_save_data)
qed

lemma salary_not_expense_category: "salary \<notin> set (categories_of expense)"
  by (simp add: categories_of_def budget_categories_def categories_expense_def
      income_not_expense [symmetric])
     (simp add: salary_def food_def transport_def housing_def entertainment_def health_def
      clothes_def education_def other_def)

text \<open>
  C10. The import takes the type and the category of a row as they are, without comparing
  them with the table of categories. Importing the rows
  \<^verbatim>\<open>2024-03-01;Expense;Transport;99,50;Bus\<close>, whose type is no type of the table, and a row
  of the expense type with the income category salary, into the empty ledger, where the
  invariant holds, gives a ledger with two transactions whose category is not a category
  of their type.
\<close>

theorem import_breaks_category_invariant:
  "transactions (snd (import_from_csv example_env
       (Some [example_header, example_row, example_row_salary]) initial_app))
     = [\<lparr>t_type = ''Expense'', t_category = ''Transport'', t_amount = 199 / 2,
         t_date = ''2024-03-01'', t_description = ''Bus''\<rparr>,
        \<lparr>t_type = expense, t_category = salary, t_amount = 21 / 2,
         t_date = ''2024-03-02'', t_description = ''Pay''\<rparr>]
   \<and> \<not> category_invariant
         \<lparr>t_type = ''Expense'', t_category = ''Transport'', t_amount = 199 / 2,
          t_date = ''2024-03-01'', t_description = ''Bus''\<rparr>
   \<and> \<not> category_invariant
         \<lparr>t_type = expense, t_category = salary, t_amount = 21 / 2,
          t_date = ''2024-03-02'', t_description = ''Pay''\<rparr>
   \<and> list_all category_invariant (transactions initial_app)"
proof -
  have "categories_of ''Expense'' = []"
    by (simp add: categories_of_def budget_categories_def income_def expense_def)
  then show ?thesis
    unfolding imported_examples transactions_save_data
    by (simp add: initial_app_def category_invariant_def salary_not_expense_category)
qed


section \<open>Properties of the persisted document\<close>

lemma those_transactions:
  "those (map transaction_of_json (map json_of_transaction ts)) = Some ts"
  by (induction ts) (simp_all add: json_of_transaction_def)

lemma those_goals: "those (map goal_of_json (map json_of_goal gs)) = Some gs"
  by (induction gs) (simp_all add: json_of_goal_def)

lemma payment_roundtrip: "payment_of_json (json_of_payment p) = Some p"
  by (cases "p_last_paid p") (simp_all add: json_of_payment_def)

lemma those_payments: "those (map payment_of_json (map json_of_payment ps)) = Some ps"
  by (induction ps) (simp_all add: payment_roundtrip del: map_map)

lemma those_limits:
  "those (map limit_of_json (map (\<lambda>(category, limit). (category, JNum limit)) ls)) = Some ls"
  by (induction ls) auto

text \<open>
  C9. For every state, writing the document and loading it, into any state of the window,
  gives back the transactions, the goals and the payments element for element in the same
  order, and the budget limits with the same keys and values.
\<close>

theorem save_then_load_reproduces_store:
  "load_data (t\<lparr>data_json := data_json (save_data s)\<rparr>)
     = Some (Loaded,
             t\<lparr>transactions := transactions s, budget_limits := budget_limits s,
               saving_goals := saving_goals s, regular_payments := regular_payments s,
               data_json := data_json (save_data s)\<rparr>)"
  by (simp add: load_data_def save_data_def document_def get_default_def json_of_limits_def
      those_transactions those_goals those_payments those_limits del: map_map)

end
